theory Spec2Isabelle
  imports Complex_Main
begin

section \<open>JavaScript values\<close>

text \<open>
  The handlers read fields of parsed JSON and store them in log objects. A field holds a
  primitive value; a field that is absent reads as \<open>undefined\<close>. Numbers are the
  values of doubles, taken as rationals (the handlers only compare and copy them).
  A string is the list of its code units, each below 256.
\<close>

datatype jsval = JUndefined | JNull | JBool bool | JNum rat | JStr string

text \<open>The values that \<open>!v\<close>, \<open>v || w\<close> and \<open>if (v)\<close> treat as false.\<close>

fun truthy :: "jsval \<Rightarrow> bool" where
  "truthy JUndefined = False"
| "truthy JNull = False"
| "truthy (JBool b) = b"
| "truthy (JNum n) = (n \<noteq> 0)"
| "truthy (JStr s) = (s \<noteq> [])"

text \<open>\<open>a || b\<close>\<close>

definition js_or :: "jsval \<Rightarrow> jsval \<Rightarrow> jsval" where
  "js_or a b = (if truthy a then a else b)"

text \<open>
  \<open>xs.findIndex(p)\<close>: the first index whose element satisfies \<open>p\<close>; \<open>None\<close> stands
  for the result \<open>-1\<close>.
\<close>

fun findIndex :: "('a \<Rightarrow> bool) \<Rightarrow> 'a list \<Rightarrow> nat option" where
  "findIndex p [] = None"
| "findIndex p (x # xs) =
     (if p x then Some 0 else map_option Suc (findIndex p xs))"

section \<open>The data of the payment service\<close>

text \<open>
  The gateway's asynchronous result, \<open>req.body.Body.stkCallback\<close>. \<open>CallbackMetadata\<close>
  holds the list \<open>CallbackMetadata.Item\<close>; \<open>None\<close> is a callback without metadata
  (or with a metadata object that has no item list), where the handlers take \<open>[]\<close>.
\<close>

record item =
  Name :: jsval
  Value :: jsval

record stkCallback =
  MerchantRequestID :: jsval
  CheckoutRequestID :: jsval
  ResultCode :: jsval
  ResultDesc :: jsval
  CallbackMetadata :: "item list option"

text \<open>
  \<open>darajaResponse.data\<close>, the body of the gateway's answer to the STK push request.
\<close>

record daraja_data =
  data_MerchantRequestID :: jsval
  data_CheckoutRequestID :: jsval
  data_ResponseCode :: jsval
  data_ResponseDescription :: jsval
  data_CustomerMessage :: jsval

datatype details = Submitted daraja_data | Delivered stkCallback

text \<open>
  One element of \<open>logs\<close>. The object literals of the handlers set some of the fields;
  a field an object does not have is \<open>JUndefined\<close>.
\<close>

record log =
  phone :: jsval
  amount :: jsval
  event :: jsval
  template :: jsval
  status :: jsval
  timestamp :: string
  checkoutId :: jsval
  details :: details
  mpesaReceipt :: jsval
  resultDesc :: jsval
  expiry :: jsval
  paidAmount :: jsval

text \<open>
  The module-level variables \<open>logs\<close>, \<open>accessTokenCache\<close> and \<open>tokenExpiryTime\<close>.
  \<open>tokenExpiryTime\<close> is \<open>null\<close> (here \<open>None\<close>) until the first token is stored.
\<close>

record server =
  logs :: "log list"
  accessTokenCache :: jsval
  tokenExpiryTime :: "int option"

definition initial :: server where
  "initial = \<lparr>logs = [], accessTokenCache = JNull, tokenExpiryTime = None\<rparr>"

text \<open>\<open>process.env\<close>: a variable that is not set reads as \<open>JUndefined\<close>.\<close>

record env =
  DARAJA_CONSUMER_KEY :: jsval
  DARAJA_CONSUMER_SECRET :: jsval

text \<open>
  What an outbound call (\<open>axios.get\<close>, \<open>axios.post\<close>) does: it throws (a network
  error, a timeout, a response whose status is not 2xx), with the message and, when
  the gateway answered, the status and body of its answer; or it returns the body.
  \<open>shown\<close> is what \<open>String(err)\<close> gives.
\<close>

record failure =
  message :: string
  shown :: string
  response :: "(nat \<times> jsval) option"

datatype 'a upstream = Throws failure | Returns 'a

text \<open>
  The answer of the credential exchange: the code reads \<open>access_token\<close>; \<open>expires_in\<close>
  is the validity the gateway states for the token, in seconds.
\<close>

record token_data =
  access_token :: jsval
  expires_in :: nat

text \<open>The bodies the handlers send, each with its HTTP status.\<close>

datatype detail = Text string | Body jsval | MessageObject string

datatype payload =
    Error string
  | ErrorMessage string detail
  | ErrorDetails string detail
  | Received
  | Raw daraja_data
  | Started jsval daraja_data
  | Initiated jsval daraja_data
  | Entry log
  | Entries "log list"
  | Projection jsval jsval jsval jsval jsval jsval jsval jsval jsval

type_synonym reply = "nat \<times> payload"

section \<open>Reading the callback\<close>

text \<open>
  \<open>const items = callback.CallbackMetadata?.Item || [];\<close>
\<close>

definition items :: "stkCallback \<Rightarrow> item list" where
  "items callback = (case CallbackMetadata callback of None \<Rightarrow> [] | Some its \<Rightarrow> its)"

text \<open>
  \<open>items.find(i => i.Name === 'MpesaReceiptNumber')\<close> and
  \<open>items.find(i => i.Name === 'Amount')\<close>: the first such item, if any.
\<close>

definition receiptItem :: "stkCallback \<Rightarrow> item option" where
  "receiptItem callback = find (\<lambda>i. Name i = JStr ''MpesaReceiptNumber'') (items callback)"

definition amountItem :: "stkCallback \<Rightarrow> item option" where
  "amountItem callback = find (\<lambda>i. Name i = JStr ''Amount'') (items callback)"

text \<open>\<open>it?.Value\<close>\<close>

fun opt_Value :: "item option \<Rightarrow> jsval" where
  "opt_Value None = JUndefined"
| "opt_Value (Some i) = Value i"

text \<open>\<open>(callback.ResultCode === 0) ? 'Success' : 'Failed'\<close>\<close>

definition outcome :: "stkCallback \<Rightarrow> jsval" where
  "outcome callback = (if ResultCode callback = JNum 0 then JStr ''Success'' else JStr ''Failed'')"

section \<open>The callback handlers\<close>

text \<open>
  \<open>app.post('/callback')\<close> of server.js (its first version). The argument \<open>ts\<close> is
  what \<open>getTimestamp()\<close> returns at the call; \<open>None\<close> is a request whose
  \<open>Body.stkCallback\<close> is missing.
\<close>

definition server_callback :: "string \<Rightarrow> stkCallback option \<Rightarrow> log list \<Rightarrow> reply \<times> log list" where
  "server_callback ts body ls =
     (case body of
        None \<Rightarrow> ((400, Error ''Invalid data''), ls)
      | Some callback \<Rightarrow>
          (case findIndex (\<lambda>l. checkoutId l = CheckoutRequestID callback) ls of
             Some logIndex \<Rightarrow>
               ((200, Received),
                ls[logIndex := (ls ! logIndex)
                   \<lparr>status := outcome callback,
                    mpesaReceipt := opt_Value (receiptItem callback),
                    resultDesc := ResultDesc callback\<rparr>])
           | None \<Rightarrow>
               ((200, Received),
                ls @ [\<lparr>phone = JStr ''unknown'', amount = JNull, event = JUndefined,
                       template = JUndefined, status = ResultDesc callback, timestamp = ts,
                       checkoutId = CheckoutRequestID callback, details = Delivered callback,
                       mpesaReceipt = JUndefined, resultDesc = JUndefined,
                       expiry = JUndefined, paidAmount = JUndefined\<rparr>])))"

text \<open>
  \<open>app.post('/callback')\<close> of the second version in server.js, which stamps an expiry
  twelve hours after a successful result. \<open>now\<close> is \<open>Date.now()\<close>, in milliseconds.
\<close>

definition server2_callback ::
  "int \<Rightarrow> string \<Rightarrow> stkCallback option \<Rightarrow> log list \<Rightarrow> reply \<times> log list" where
  "server2_callback now ts body ls =
     (case body of
        None \<Rightarrow> ((400, Error ''Invalid data''), ls)
      | Some callback \<Rightarrow>
          (case findIndex (\<lambda>l. checkoutId l = CheckoutRequestID callback) ls of
             Some logIndex \<Rightarrow>
               ((200, Received),
                ls[logIndex := (ls ! logIndex)
                   \<lparr>status := outcome callback,
                    mpesaReceipt := js_or (opt_Value (receiptItem callback)) JNull,
                    resultDesc := js_or (ResultDesc callback) JNull,
                    expiry := (if ResultCode callback = JNum 0
                               then JNum (of_int (now + 1000 * 60 * 60 * 12))
                               else expiry (ls ! logIndex))\<rparr>])
           | None \<Rightarrow>
               ((200, Received),
                ls @ [\<lparr>phone = JStr ''unknown'', amount = JNull, event = JUndefined,
                       template = JUndefined, status = ResultDesc callback, timestamp = ts,
                       checkoutId = CheckoutRequestID callback, details = Delivered callback,
                       mpesaReceipt = JUndefined, resultDesc = JUndefined,
                       expiry = JUndefined, paidAmount = JUndefined\<rparr>])))"

text \<open>
  \<open>app.post('/callback')\<close> of part_000 (the version for Render): as the one before,
  but an orphan's status falls back to the result code's outcome when the callback has
  no description.
\<close>

definition part000_callback ::
  "int \<Rightarrow> string \<Rightarrow> stkCallback option \<Rightarrow> log list \<Rightarrow> reply \<times> log list" where
  "part000_callback now ts body ls =
     (case body of
        None \<Rightarrow> ((400, Error ''Invalid data''), ls)
      | Some callback \<Rightarrow>
          (case findIndex (\<lambda>l. checkoutId l = CheckoutRequestID callback) ls of
             Some logIndex \<Rightarrow>
               ((200, Received),
                ls[logIndex := (ls ! logIndex)
                   \<lparr>status := outcome callback,
                    mpesaReceipt := js_or (opt_Value (receiptItem callback)) JNull,
                    resultDesc := js_or (ResultDesc callback) JNull,
                    expiry := (if ResultCode callback = JNum 0
                               then JNum (of_int (now + 1000 * 60 * 60 * 12))
                               else expiry (ls ! logIndex))\<rparr>])
           | None \<Rightarrow>
               ((200, Received),
                ls @ [\<lparr>phone = JStr ''unknown'', amount = JNull, event = JUndefined,
                       template = JUndefined,
                       status = js_or (ResultDesc callback) (outcome callback), timestamp = ts,
                       checkoutId = CheckoutRequestID callback, details = Delivered callback,
                       mpesaReceipt = JUndefined, resultDesc = JUndefined,
                       expiry = JUndefined, paidAmount = JUndefined\<rparr>])))"

text \<open>
  \<open>app.post('/callback')\<close> of part_001, which also reads the paid amount and keeps
  the receipt on an orphan.
\<close>

definition part001_callback :: "string \<Rightarrow> stkCallback option \<Rightarrow> log list \<Rightarrow> reply \<times> log list" where
  "part001_callback ts body ls =
     (case body of
        None \<Rightarrow> ((400, Error ''Invalid callback payload''), ls)
      | Some callback \<Rightarrow>
          (let mpesaReceipt' = js_or (opt_Value (receiptItem callback)) JNull;
               paidAmount' = js_or (opt_Value (amountItem callback)) JNull
           in case findIndex (\<lambda>l. checkoutId l = CheckoutRequestID callback) ls of
             Some logIndex \<Rightarrow>
               ((200, Received),
                ls[logIndex := (ls ! logIndex)
                   \<lparr>status := outcome callback,
                    mpesaReceipt := mpesaReceipt',
                    resultDesc := ResultDesc callback,
                    paidAmount := (if truthy paidAmount' then paidAmount'
                                   else paidAmount (ls ! logIndex))\<rparr>])
           | None \<Rightarrow>
               ((200, Received),
                ls @ [\<lparr>phone = JStr ''unknown'', amount = js_or paidAmount' JNull,
                       event = JUndefined, template = JUndefined,
                       status = js_or (ResultDesc callback) (JStr ''Unknown''), timestamp = ts,
                       checkoutId = CheckoutRequestID callback, details = Delivered callback,
                       mpesaReceipt = mpesaReceipt', resultDesc = JUndefined,
                       expiry = JUndefined, paidAmount = JUndefined\<rparr>])))"

section \<open>The queries\<close>

text \<open>
  \<open>logs.find(l => l.checkoutId === checkoutId)\<close> of \<open>GET /api/mpesa/status\<close>
  (server.js, second version, and part_000). A query parameter is a string, or absent.
\<close>

definition mpesa_status :: "string option \<Rightarrow> log list \<Rightarrow> reply" where
  "mpesa_status q ls =
     (case q of
        None \<Rightarrow> (400, Error ''checkoutId is required'')
      | Some c \<Rightarrow>
          if c = [] then (400, Error ''checkoutId is required'')
          else (case find (\<lambda>l. checkoutId l = JStr c) ls of
                  None \<Rightarrow> (404, Error ''Transaction not found'')
                | Some found \<Rightarrow>
                    (200, Projection (js_or (status found) (JStr ''Pending'')) (phone found)
                       (amount found) (event found) (template found)
                       (js_or (mpesaReceipt found) JNull) (js_or (resultDesc found) JNull)
                       (js_or (expiry found) JNull) (checkoutId found))))"

text \<open>\<open>GET /status\<close> of server.js and part_000: the last log of the phone.\<close>

definition server_status :: "string option \<Rightarrow> log list \<Rightarrow> reply" where
  "server_status q ls =
     (case q of
        None \<Rightarrow> (400, Error ''Phone is required'')
      | Some p \<Rightarrow>
          if p = [] then (400, Error ''Phone is required'')
          else (let userLogs = filter (\<lambda>l. phone l = JStr p) ls
                in if length userLogs = 0 then (404, Error ''No transactions found'')
                   else (200, Entry (userLogs ! (length userLogs - 1)))))"

text \<open>\<open>GET /logs\<close> of server.js and part_000.\<close>

definition server_logs :: "string option \<Rightarrow> log list \<Rightarrow> reply" where
  "server_logs q ls =
     (case q of
        None \<Rightarrow> (200, Entries ls)
      | Some p \<Rightarrow>
          if p = [] then (200, Entries ls)
          else (200, Entries (filter (\<lambda>l. phone l = JStr p) ls)))"

section \<open>The phone normalizer (part_001)\<close>

text \<open>
  The class \<open>\s\<close> of a regular expression, on code units below 256: tab, line feed,
  vertical tab, form feed, carriage return, space and the no-break space.
\<close>

definition whitespace :: "char \<Rightarrow> bool" where
  "whitespace c = (c \<in> set [CHR 0x09, CHR 0x0A, CHR 0x0B, CHR 0x0C, CHR 0x0D, CHR 0x20, CHR 0xA0])"

text \<open>The class \<open>\d\<close>.\<close>

definition digit :: "char \<Rightarrow> bool" where
  "digit c = (c \<in> set ''0123456789'')"

text \<open>\<open>phone.replace(/\s|\+|-/g, '')\<close>, on the argument \<open>raw\<close>.\<close>

definition cleaned :: "string \<Rightarrow> string" where
  "cleaned raw = filter (\<lambda>c. \<not> (whitespace c \<or> c = CHR ''+'' \<or> c = CHR ''-'')) raw"

text \<open>
  \<open>/^P\d{8}$/.test(s)\<close> for a literal prefix \<open>P\<close>: the whole of \<open>s\<close> is \<open>P\<close>
  followed by exactly eight digits.
\<close>

definition test8 :: "string \<Rightarrow> string \<Rightarrow> bool" where
  "test8 P s = (take (length P) s = P \<and> length (drop (length P) s) = 8
                \<and> list_all digit (drop (length P) s))"

text \<open>
  \<open>normalizePhone\<close>, called on a string; \<open>None\<close> is the result \<open>null\<close>. The
  fourth test repeats the third, as in the source.
\<close>

definition normalizePhone :: "string \<Rightarrow> string option" where
  "normalizePhone raw =
     (if raw = [] then None
      else if test8 ''07'' (cleaned raw) then Some (cleaned raw)
      else if test8 ''7'' (cleaned raw) then Some (CHR ''0'' # cleaned raw)
      else if test8 ''2547'' (cleaned raw) then Some (cleaned raw)
      else if test8 ''2547'' (cleaned raw) then Some (cleaned raw)
      else Some (cleaned raw))"

text \<open>\<open>!normalizePhone(..)\<close>: the result is \<open>null\<close> or the empty string.\<close>

fun rejected :: "string option \<Rightarrow> bool" where
  "rejected None = True"
| "rejected (Some n) = (n = [])"

text \<open>\<open>GET /status\<close> of part_001: the query is normalized before the logs are filtered.\<close>

definition part001_status :: "string option \<Rightarrow> log list \<Rightarrow> reply" where
  "part001_status q ls =
     (case q of
        None \<Rightarrow> (400, Error ''Phone is required'')
      | Some p \<Rightarrow>
          if p = [] then (400, Error ''Phone is required'')
          else if rejected (normalizePhone p) then (400, Error ''Invalid phone format'')
          else (let userLogs = filter (\<lambda>l. phone l = JStr (the (normalizePhone p))) ls
                in if length userLogs = 0
                   then (404, Error ''No transactions found for this phone'')
                   else (200, Entry (userLogs ! (length userLogs - 1)))))"

text \<open>\<open>GET /logs\<close> of part_001.\<close>

definition part001_logs :: "string option \<Rightarrow> log list \<Rightarrow> reply" where
  "part001_logs q ls =
     (case q of
        None \<Rightarrow> (200, Entries ls)
      | Some p \<Rightarrow>
          if p = [] then (200, Entries ls)
          else (200, Entries (filter (\<lambda>l. phone l =
                   (case normalizePhone p of None \<Rightarrow> JNull | Some n \<Rightarrow> JStr n)) ls)))"

section \<open>The token cache\<close>

text \<open>
  \<open>tokenExpiryTime > Date.now()\<close>; \<open>null\<close> compares as 0.
\<close>

fun later_than :: "int option \<Rightarrow> int \<Rightarrow> bool" where
  "later_than None now = (0 > now)"
| "later_than (Some t) now = (t > now)"

text \<open>
  What a call of \<open>getAccessToken\<close> gives: the token it returns or the message of the
  error it throws, the variables afterwards, and how many credential exchanges
  (\<open>axios.get\<close> on the OAuth endpoint) it made.
\<close>

record acquired =
  token :: "string + jsval"
  after :: server
  exchanges :: nat

text \<open>
  \<open>getAccessToken\<close> of server.js (both versions) and of the second version in
  part_000. \<open>now\<close> is \<open>Date.now()\<close> at the test of the cache, \<open>later\<close> is
  \<open>Date.now()\<close> when the answer is stored, and \<open>up\<close> is what the exchange does.
\<close>

definition server_getAccessToken :: "server \<Rightarrow> int \<Rightarrow> int \<Rightarrow> token_data upstream \<Rightarrow> acquired" where
  "server_getAccessToken st now later up =
     (if truthy (accessTokenCache st) \<and> later_than (tokenExpiryTime st) now
      then \<lparr>token = Inr (accessTokenCache st), after = st, exchanges = 0\<rparr>
      else (case up of
              Returns d \<Rightarrow>
                \<lparr>token = Inr (access_token d),
                 after = st\<lparr>accessTokenCache := access_token d,
                            tokenExpiryTime := Some (later + 3600000)\<rparr>,
                 exchanges = 1\<rparr>
            | Throws e \<Rightarrow>
                \<lparr>token = Inl ''Unable to fetch access token'', after = st, exchanges = 1\<rparr>))"

text \<open>
  \<open>getAccessToken\<close> of part_000 (first version): it returns \<open>null\<close> where the others
  throw, first of all when a credential is not configured.
\<close>

definition part000_getAccessToken ::
  "env \<Rightarrow> server \<Rightarrow> int \<Rightarrow> int \<Rightarrow> token_data upstream \<Rightarrow> acquired" where
  "part000_getAccessToken cfg st now later up =
     (if truthy (accessTokenCache st) \<and> later_than (tokenExpiryTime st) now
      then \<lparr>token = Inr (accessTokenCache st), after = st, exchanges = 0\<rparr>
      else if \<not> truthy (DARAJA_CONSUMER_KEY cfg) \<or> \<not> truthy (DARAJA_CONSUMER_SECRET cfg)
      then \<lparr>token = Inr JNull, after = st, exchanges = 0\<rparr>
      else (case up of
              Returns d \<Rightarrow>
                \<lparr>token = Inr (access_token d),
                 after = st\<lparr>accessTokenCache := access_token d,
                            tokenExpiryTime := Some (later + 3500000)\<rparr>,
                 exchanges = 1\<rparr>
            | Throws e \<Rightarrow> \<lparr>token = Inr JNull, after = st, exchanges = 1\<rparr>))"

text \<open>
  \<open>getAccessToken\<close> of part_001: the expiry must also be set and non-zero, and it is
  stored five seconds short of the hour.
\<close>

definition part001_getAccessToken ::
  "env \<Rightarrow> server \<Rightarrow> int \<Rightarrow> int \<Rightarrow> token_data upstream \<Rightarrow> acquired" where
  "part001_getAccessToken cfg st now later up =
     (if truthy (accessTokenCache st) \<and> tokenExpiryTime st \<noteq> None
         \<and> tokenExpiryTime st \<noteq> Some 0 \<and> later_than (tokenExpiryTime st) now
      then \<lparr>token = Inr (accessTokenCache st), after = st, exchanges = 0\<rparr>
      else if \<not> truthy (DARAJA_CONSUMER_KEY cfg) \<or> \<not> truthy (DARAJA_CONSUMER_SECRET cfg)
      then \<lparr>token = Inl ''Daraja consumer key/secret not configured'', after = st,
            exchanges = 0\<rparr>
      else (case up of
              Returns d \<Rightarrow>
                \<lparr>token = Inr (access_token d),
                 after = st\<lparr>accessTokenCache := access_token d,
                            tokenExpiryTime := Some (later + (60 * 60 * 1000) - (5 * 1000))\<rparr>,
                 exchanges = 1\<rparr>
            | Throws e \<Rightarrow>
                \<lparr>token = Inl ''Unable to fetch access token'', after = st, exchanges = 1\<rparr>))"

section \<open>Payment initiation\<close>

text \<open>
  The handlers build the signed request from the configuration, the time and the body,
  send it with the token, and await the gateway. What the gateway does is the argument
  \<open>stk\<close>; what the credential exchange does (if the token cache makes one) is \<open>up\<close>.
  \<open>ts\<close> is the \<open>getTimestamp()\<close> that goes into the log.
\<close>

record body =
  body_phone :: jsval
  body_amount :: jsval
  body_event :: jsval
  body_template :: jsval

text \<open>\<open>error.response?.data || error.message\<close>\<close>

definition reason :: "failure \<Rightarrow> detail" where
  "reason e =
     (case response e of
        Some (code, d) \<Rightarrow> if truthy d then Body d else Text (message e)
      | None \<Rightarrow> Text (message e))"

text \<open>\<open>app.post('/pay')\<close> of server.js (both versions).\<close>

definition server_pay ::
  "server \<Rightarrow> int \<Rightarrow> int \<Rightarrow> string \<Rightarrow> body \<Rightarrow> token_data upstream \<Rightarrow> daraja_data upstream
   \<Rightarrow> reply \<times> server" where
  "server_pay st now later ts req up stk =
     (let a = server_getAccessToken st now later up in
      case token a of
        Inl msg \<Rightarrow> ((500, ErrorMessage ''Payment initiation failed'' (Text msg)), after a)
      | Inr tok \<Rightarrow>
          (case stk of
             Throws e \<Rightarrow>
               ((500, ErrorMessage ''Payment initiation failed'' (Text (message e))), after a)
           | Returns d \<Rightarrow>
               ((200, Raw d),
                (after a)\<lparr>logs := logs (after a) @
                  [\<lparr>phone = body_phone req, amount = body_amount req, event = JUndefined,
                    template = JUndefined, status = JStr ''Pending'', timestamp = ts,
                    checkoutId = data_CheckoutRequestID d, details = Submitted d,
                    mpesaReceipt = JUndefined, resultDesc = JUndefined,
                    expiry = JUndefined, paidAmount = JUndefined\<rparr>]\<rparr>)))"

text \<open>\<open>app.post('/api/mpesa/stk')\<close> of server.js (second version): the fixed price.\<close>

definition FIXED_AMOUNT :: rat where
  "FIXED_AMOUNT = 20"

definition server2_stk ::
  "server \<Rightarrow> int \<Rightarrow> int \<Rightarrow> string \<Rightarrow> body \<Rightarrow> token_data upstream \<Rightarrow> daraja_data upstream
   \<Rightarrow> reply \<times> server" where
  "server2_stk st now later ts req up stk =
     (if \<not> truthy (body_phone req) then ((400, Error ''phone is required''), st)
      else
        (let a = server_getAccessToken st now later up in
         case token a of
           Inl msg \<Rightarrow> ((500, ErrorMessage ''Payment initiation failed'' (Text msg)), after a)
         | Inr tok \<Rightarrow>
             if \<not> truthy tok then ((500, Error ''Daraja access token unavailable''), after a)
             else
               (case stk of
                  Throws e \<Rightarrow>
                    ((500, ErrorMessage ''Payment initiation failed'' (reason e)), after a)
                | Returns d \<Rightarrow>
                    ((200, Started (data_CheckoutRequestID d) d),
                     (after a)\<lparr>logs := logs (after a) @
                       [\<lparr>phone = body_phone req, amount = JNum FIXED_AMOUNT,
                         event = js_or (body_event req) JNull,
                         template = js_or (body_template req) JNull,
                         status = JStr ''Pending'', timestamp = ts,
                         checkoutId = data_CheckoutRequestID d, details = Submitted d,
                         mpesaReceipt = JUndefined, resultDesc = JUndefined,
                         expiry = JUndefined, paidAmount = JUndefined\<rparr>]\<rparr>))))"

text \<open>
  \<open>app.post('/api/mpesa/stk')\<close> of part_000 (first version).
  \<open>err?.response?.data || err?.message || String(err)\<close> is \<open>reason'\<close>.
\<close>

definition reason' :: "failure \<Rightarrow> detail" where
  "reason' e =
     (case response e of
        Some (code, d) \<Rightarrow>
          if truthy d then Body d
          else if message e \<noteq> [] then Text (message e) else Text (shown e)
      | None \<Rightarrow> if message e \<noteq> [] then Text (message e) else Text (shown e))"

definition part000_stk ::
  "env \<Rightarrow> server \<Rightarrow> int \<Rightarrow> int \<Rightarrow> string \<Rightarrow> body \<Rightarrow> token_data upstream \<Rightarrow> daraja_data upstream
   \<Rightarrow> reply \<times> server" where
  "part000_stk cfg st now later ts req up stk =
     (if \<not> truthy (body_phone req) then ((400, Error ''phone is required''), st)
      else
        (let a = part000_getAccessToken cfg st now later up in
         case token a of
           Inl msg \<Rightarrow> ((500, ErrorMessage ''Payment initiation failed'' (Text msg)), after a)
         | Inr tok \<Rightarrow>
             if \<not> truthy tok
             then ((500, Error ''Daraja access token unavailable. Check server environment and network.''),
                   after a)
             else
               (case stk of
                  Throws e \<Rightarrow>
                    ((500, ErrorMessage ''Payment initiation failed'' (reason' e)), after a)
                | Returns d \<Rightarrow>
                    ((200, Started (js_or (data_CheckoutRequestID d) JNull) d),
                     (after a)\<lparr>logs := logs (after a) @
                       [\<lparr>phone = body_phone req, amount = JNum FIXED_AMOUNT,
                         event = js_or (body_event req) JNull,
                         template = js_or (body_template req) JNull,
                         status = JStr ''Pending'', timestamp = ts,
                         checkoutId = js_or (data_CheckoutRequestID d) JNull,
                         details = Submitted d,
                         mpesaReceipt = JUndefined, resultDesc = JUndefined,
                         expiry = JUndefined, paidAmount = JUndefined\<rparr>]\<rparr>))))"

text \<open>
  \<open>app.post('/pay')\<close> of part_001, the bounded mode. Its body is taken at the types
  the handler documents (\<open>{ phone: string, amount: number }\<close>): \<open>rawPhone\<close> is the
  string sent, if any, and \<open>requested\<close> the number sent, \<open>None\<close> when the amount is
  missing or \<open>null\<close>. On a number \<open>Number(amount)\<close> is the number itself, never NaN.
\<close>

record pay_request =
  rawPhone :: "string option"
  requested :: "rat option"

definition MAX_AMOUNT :: rat where
  "MAX_AMOUNT = 30"

text \<open>
  The status and detail of part_001's error reply:
  \<open>(error.response && error.response.status) || 500\<close> and
  \<open>(error.response && error.response.data) || { message: error.message }\<close>.
\<close>

definition failed_status :: "failure \<Rightarrow> nat" where
  "failed_status e =
     (case response e of Some (code, d) \<Rightarrow> if code \<noteq> 0 then code else 500 | None \<Rightarrow> 500)"

definition failed_data :: "failure \<Rightarrow> detail" where
  "failed_data e =
     (case response e of
        Some (code, d) \<Rightarrow> if truthy d then Body d else MessageObject (message e)
      | None \<Rightarrow> MessageObject (message e))"

definition part001_pay ::
  "env \<Rightarrow> server \<Rightarrow> int \<Rightarrow> int \<Rightarrow> string \<Rightarrow> pay_request \<Rightarrow> token_data upstream
   \<Rightarrow> daraja_data upstream \<Rightarrow> reply \<times> server" where
  "part001_pay cfg st now later ts req up stk =
     (case requested req of
        None \<Rightarrow> ((400, Error ''Amount is required''), st)
      | Some numericAmount \<Rightarrow>
          if numericAmount \<le> 0 then ((400, Error ''Invalid amount''), st)
          else if numericAmount > MAX_AMOUNT
          then ((400, Error ''Amount exceeds maximum allowed (KES 30)''), st)
          else if rejected (normalizePhone (case rawPhone req of None \<Rightarrow> [] | Some r \<Rightarrow> r))
          then ((400, Error ''Invalid phone number''), st)
          else
            (let a = part001_getAccessToken cfg st now later up in
             case token a of
               Inl msg \<Rightarrow>
                 ((500, ErrorDetails ''Payment initiation failed'' (MessageObject msg)), after a)
             | Inr tok \<Rightarrow>
                 (case stk of
                    Throws e \<Rightarrow>
                      ((failed_status e, ErrorDetails ''Payment initiation failed'' (failed_data e)),
                       after a)
                  | Returns d \<Rightarrow>
                      ((200, Initiated (data_CheckoutRequestID d) d),
                       (after a)\<lparr>logs := logs (after a) @
                         [\<lparr>phone = JStr (the (normalizePhone
                                    (case rawPhone req of None \<Rightarrow> [] | Some r \<Rightarrow> r))),
                           amount = JNum numericAmount, event = JUndefined,
                           template = JUndefined, status = JStr ''Pending'', timestamp = ts,
                           checkoutId = data_CheckoutRequestID d, details = Submitted d,
                           mpesaReceipt = JUndefined, resultDesc = JUndefined,
                           expiry = JUndefined, paidAmount = JUndefined\<rparr>]\<rparr>))))"

section \<open>Observations and sample data\<close>

text \<open>A reply whose body is one of the error bodies \<open>{ error: ... }\<close>.\<close>

fun is_error :: "payload \<Rightarrow> bool" where
  "is_error (Error m) = True"
| "is_error (ErrorMessage m d) = True"
| "is_error (ErrorDetails m d) = True"
| "is_error other = False"

text \<open>
  The fields of a log that only payment initiation writes, and the fields that
  reconciliation stamps.
\<close>

definition fixed_fields ::
  "log \<Rightarrow> jsval \<times> jsval \<times> jsval \<times> jsval \<times> string \<times> jsval \<times> details" where
  "fixed_fields l = (phone l, amount l, event l, template l, timestamp l, checkoutId l, details l)"

definition terminal_fields :: "log \<Rightarrow> jsval \<times> jsval \<times> jsval" where
  "terminal_fields l = (status l, mpesaReceipt l, resultDesc l)"

text \<open>A configuration, a granted token and an accepted STK push, for the examples.\<close>

definition sample_env :: env where
  "sample_env = \<lparr>DARAJA_CONSUMER_KEY = JStr ''key'', DARAJA_CONSUMER_SECRET = JStr ''secret''\<rparr>"

definition sample_grant :: token_data where
  "sample_grant = \<lparr>access_token = JStr ''tok-1'', expires_in = 3600\<rparr>"

definition sample_accept :: daraja_data where
  "sample_accept =
     \<lparr>data_MerchantRequestID = JStr ''29115-34620561-1'',
      data_CheckoutRequestID = JStr ''ws_CO_191220191020363925'',
      data_ResponseCode = JStr ''0'',
      data_ResponseDescription = JStr ''Success. Request accepted for processing'',
      data_CustomerMessage = JStr ''Success. Request accepted for processing''\<rparr>"

text \<open>
  Callbacks for the examples: a success for the accepted push, a cancellation of it,
  a cancellation that nevertheless carries a receipt item, and a success for an
  identifier no log has.
\<close>

definition sample_paid :: stkCallback where
  "sample_paid =
     \<lparr>MerchantRequestID = JStr ''29115-34620561-1'',
      CheckoutRequestID = JStr ''ws_CO_191220191020363925'',
      ResultCode = JNum 0,
      ResultDesc = JStr ''The service request is processed successfully.'',
      CallbackMetadata = Some [\<lparr>Name = JStr ''Amount'', Value = JNum 20\<rparr>,
                               \<lparr>Name = JStr ''MpesaReceiptNumber'', Value = JStr ''ABC123''\<rparr>]\<rparr>"

definition sample_cancelled :: stkCallback where
  "sample_cancelled =
     \<lparr>MerchantRequestID = JStr ''29115-34620561-1'',
      CheckoutRequestID = JStr ''ws_CO_191220191020363925'',
      ResultCode = JNum 1032,
      ResultDesc = JStr ''Request cancelled by user'',
      CallbackMetadata = None\<rparr>"

definition sample_cancelled_with_receipt :: stkCallback where
  "sample_cancelled_with_receipt =
     \<lparr>MerchantRequestID = JStr ''29115-34620561-1'',
      CheckoutRequestID = JStr ''ws_CO_191220191020363925'',
      ResultCode = JNum 1032,
      ResultDesc = JStr ''Request cancelled by user'',
      CallbackMetadata = Some [\<lparr>Name = JStr ''MpesaReceiptNumber'', Value = JStr ''ABC123''\<rparr>]\<rparr>"

definition sample_unknown :: stkCallback where
  "sample_unknown =
     \<lparr>MerchantRequestID = JStr ''29115-34620561-2'',
      CheckoutRequestID = JStr ''ZZZ999'',
      ResultCode = JNum 0,
      ResultDesc = JStr ''The service request is processed successfully.'',
      CallbackMetadata = Some [\<lparr>Name = JStr ''Amount'', Value = JNum 20\<rparr>,
                               \<lparr>Name = JStr ''MpesaReceiptNumber'', Value = JStr ''ABC123''\<rparr>]\<rparr>"

text \<open>The log that \<open>/api/mpesa/stk\<close> pushes for the accepted push.\<close>

definition sample_pending :: log where
  "sample_pending =
     \<lparr>phone = JStr ''0712345678'', amount = JNum 20, event = JNull, template = JNull,
      status = JStr ''Pending'', timestamp = ''20250101120000'',
      checkoutId = JStr ''ws_CO_191220191020363925'', details = Submitted sample_accept,
      mpesaReceipt = JUndefined, resultDesc = JUndefined, expiry = JUndefined,
      paidAmount = JUndefined\<rparr>"

text \<open>
  What a callback that finds its log at index \<open>i\<close> does to \<open>logs\<close>: the log's status
  is the outcome of the result code, the fields written at initiation are as before,
  and no other log is touched.
\<close>

definition settles :: "stkCallback \<Rightarrow> nat \<Rightarrow> log list \<Rightarrow> log list \<Rightarrow> bool" where
  "settles cb i ls ls' =
     (status (ls' ! i) = outcome cb \<and> fixed_fields (ls' ! i) = fixed_fields (ls ! i)
      \<and> ls' = ls[i := ls' ! i])"

text \<open>
  What a callback that finds no log does: one log is appended, the lookup by the
  callback's identifier finds it, and it carries the callback as its details.
\<close>

definition kept_as_orphan :: "stkCallback \<Rightarrow> log list \<Rightarrow> log list \<Rightarrow> bool" where
  "kept_as_orphan cb ls ls' =
     (ls' = ls @ [last ls']
      \<and> find (\<lambda>l. checkoutId l = CheckoutRequestID cb) ls' = Some (last ls')
      \<and> checkoutId (last ls') = CheckoutRequestID cb
      \<and> details (last ls') = Delivered cb)"

text \<open>
  What a successful initiation does: one log is appended, pending, without a receipt,
  under the identifier \<open>c\<close>.
\<close>

definition pushed :: "jsval \<Rightarrow> log list \<Rightarrow> log list \<Rightarrow> bool" where
  "pushed c ls ls' =
     (ls' = ls @ [last ls'] \<and> status (last ls') = JStr ''Pending'' \<and> checkoutId (last ls') = c
      \<and> mpesaReceipt (last ls') = JUndefined)"

text \<open>A request body for the examples.\<close>

definition sample_body :: body where
  "sample_body = \<lparr>body_phone = JStr ''254712345678'', body_amount = JNum 20,
                   body_event = JUndefined, body_template = JUndefined\<rparr>"

section \<open>Lemmas on the library functions\<close>

lemma findIndex_Some: "findIndex p xs = Some i \<Longrightarrow> i < length xs \<and> p (xs ! i)"
  by (induction xs arbitrary: i) (auto split: if_splits)

lemma findIndex_None: "findIndex p xs = None \<longleftrightarrow> (\<forall>x \<in> set xs. \<not> p x)"
  by (induction xs) auto

lemma findIndex_update:
  "findIndex p xs = Some i \<Longrightarrow> p y \<Longrightarrow> findIndex p (xs[i := y]) = Some i"
  by (induction xs arbitrary: i) (auto split: if_splits)

lemma findIndex_snoc:
  "findIndex p xs = None \<Longrightarrow> p x \<Longrightarrow> findIndex p (xs @ [x]) = Some (length xs)"
  by (induction xs) (auto split: if_splits)

lemma findIndex_append:
  "findIndex p xs = Some i \<Longrightarrow> findIndex p (xs @ ys) = Some i"
  by (induction xs arbitrary: i) (auto split: if_splits)

lemma find_findIndex: "find p xs = map_option (\<lambda>i. xs ! i) (findIndex p xs)"
  by (induction xs) (auto simp: option.map_comp comp_def)

lemma nth_last_filter:
  assumes "length (filter P xs) \<noteq> 0"
  shows "P (filter P xs ! (length (filter P xs) - 1))"
proof -
  from assms have ne: "filter P xs \<noteq> []" by auto
  then have "filter P xs ! (length (filter P xs) - 1) = last (filter P xs)"
    by (simp add: last_conv_nth)
  moreover have "last (filter P xs) \<in> set (filter P xs)" using ne by (rule last_in_set)
  ultimately show ?thesis by simp
qed

lemma js_or_null_truthy: "truthy (js_or v JNull) = truthy v"
  by (simp add: js_or_def)

lemma outcome_cases: "outcome cb = JStr ''Success'' \<or> outcome cb = JStr ''Failed''"
  by (simp add: outcome_def)

text \<open>The sample data and the readers of a callback, unfolded together.\<close>

lemmas samples = sample_pending_def sample_paid_def sample_cancelled_def
  sample_cancelled_with_receipt_def sample_unknown_def sample_accept_def sample_grant_def
  sample_env_def sample_body_def initial_def

lemmas reading = outcome_def receiptItem_def amountItem_def items_def js_or_def Let_def

lemmas phones = normalizePhone_def cleaned_def test8_def whitespace_def digit_def

lemma normalizePhone_national: "normalizePhone ''0712345678'' = Some ''0712345678''"
  by (simp add: phones)

section \<open>The two branches of the callback handlers\<close>

text \<open>A callback whose identifier a log has: the first such log is rewritten.\<close>

lemma server_callback_found:
  "findIndex (\<lambda>l. checkoutId l = CheckoutRequestID cb) ls = Some i \<Longrightarrow>
   server_callback ts (Some cb) ls =
     ((200, Received),
      ls[i := (ls ! i)\<lparr>status := outcome cb, mpesaReceipt := opt_Value (receiptItem cb),
                       resultDesc := ResultDesc cb\<rparr>])"
  by (simp add: server_callback_def)

lemma server2_callback_found:
  "findIndex (\<lambda>l. checkoutId l = CheckoutRequestID cb) ls = Some i \<Longrightarrow>
   server2_callback now ts (Some cb) ls =
     ((200, Received),
      ls[i := (ls ! i)\<lparr>status := outcome cb,
                       mpesaReceipt := js_or (opt_Value (receiptItem cb)) JNull,
                       resultDesc := js_or (ResultDesc cb) JNull,
                       expiry := (if ResultCode cb = JNum 0
                                  then JNum (of_int (now + 1000 * 60 * 60 * 12))
                                  else expiry (ls ! i))\<rparr>])"
  by (simp add: server2_callback_def)

lemma part000_callback_found:
  "findIndex (\<lambda>l. checkoutId l = CheckoutRequestID cb) ls = Some i \<Longrightarrow>
   part000_callback now ts (Some cb) ls =
     ((200, Received),
      ls[i := (ls ! i)\<lparr>status := outcome cb,
                       mpesaReceipt := js_or (opt_Value (receiptItem cb)) JNull,
                       resultDesc := js_or (ResultDesc cb) JNull,
                       expiry := (if ResultCode cb = JNum 0
                                  then JNum (of_int (now + 1000 * 60 * 60 * 12))
                                  else expiry (ls ! i))\<rparr>])"
  by (simp add: part000_callback_def)

lemma part001_callback_found:
  "findIndex (\<lambda>l. checkoutId l = CheckoutRequestID cb) ls = Some i \<Longrightarrow>
   part001_callback ts (Some cb) ls =
     ((200, Received),
      ls[i := (ls ! i)\<lparr>status := outcome cb,
                       mpesaReceipt := js_or (opt_Value (receiptItem cb)) JNull,
                       resultDesc := ResultDesc cb,
                       paidAmount := (if truthy (js_or (opt_Value (amountItem cb)) JNull)
                                      then js_or (opt_Value (amountItem cb)) JNull
                                      else paidAmount (ls ! i))\<rparr>])"
  by (simp add: part001_callback_def Let_def)

lemma found_again:
  assumes "findIndex (\<lambda>l. checkoutId l = c) ls = Some i" and "checkoutId y = c"
  shows "findIndex (\<lambda>l. checkoutId l = c) (ls[i := y]) = Some i"
  using assms by (simp add: findIndex_update)

text \<open>A callback whose identifier no log has: an orphan is appended.\<close>

lemma server_callback_orphan:
  "findIndex (\<lambda>l. checkoutId l = CheckoutRequestID cb) ls = None \<Longrightarrow>
   server_callback ts (Some cb) ls =
     ((200, Received),
      ls @ [\<lparr>phone = JStr ''unknown'', amount = JNull, event = JUndefined,
             template = JUndefined, status = ResultDesc cb, timestamp = ts,
             checkoutId = CheckoutRequestID cb, details = Delivered cb,
             mpesaReceipt = JUndefined, resultDesc = JUndefined,
             expiry = JUndefined, paidAmount = JUndefined\<rparr>])"
  by (simp add: server_callback_def)

lemma server2_callback_orphan:
  "findIndex (\<lambda>l. checkoutId l = CheckoutRequestID cb) ls = None \<Longrightarrow>
   server2_callback now ts (Some cb) ls =
     ((200, Received),
      ls @ [\<lparr>phone = JStr ''unknown'', amount = JNull, event = JUndefined,
             template = JUndefined, status = ResultDesc cb, timestamp = ts,
             checkoutId = CheckoutRequestID cb, details = Delivered cb,
             mpesaReceipt = JUndefined, resultDesc = JUndefined,
             expiry = JUndefined, paidAmount = JUndefined\<rparr>])"
  by (simp add: server2_callback_def)

lemma part000_callback_orphan:
  "findIndex (\<lambda>l. checkoutId l = CheckoutRequestID cb) ls = None \<Longrightarrow>
   part000_callback now ts (Some cb) ls =
     ((200, Received),
      ls @ [\<lparr>phone = JStr ''unknown'', amount = JNull, event = JUndefined,
             template = JUndefined, status = js_or (ResultDesc cb) (outcome cb),
             timestamp = ts,
             checkoutId = CheckoutRequestID cb, details = Delivered cb,
             mpesaReceipt = JUndefined, resultDesc = JUndefined,
             expiry = JUndefined, paidAmount = JUndefined\<rparr>])"
  by (simp add: part000_callback_def)

lemma part001_callback_orphan:
  "findIndex (\<lambda>l. checkoutId l = CheckoutRequestID cb) ls = None \<Longrightarrow>
   part001_callback ts (Some cb) ls =
     ((200, Received),
      ls @ [\<lparr>phone = JStr ''unknown'',
             amount = js_or (js_or (opt_Value (amountItem cb)) JNull) JNull,
             event = JUndefined, template = JUndefined,
             status = js_or (ResultDesc cb) (JStr ''Unknown''), timestamp = ts,
             checkoutId = CheckoutRequestID cb, details = Delivered cb,
             mpesaReceipt = js_or (opt_Value (receiptItem cb)) JNull, resultDesc = JUndefined,
             expiry = JUndefined, paidAmount = JUndefined\<rparr>])"
  by (simp add: part001_callback_def Let_def)

lemma kept_as_orphan_snoc:
  assumes "findIndex (\<lambda>l. checkoutId l = CheckoutRequestID cb) ls = None"
    and "checkoutId x = CheckoutRequestID cb" and "details x = Delivered cb"
  shows "kept_as_orphan cb ls (ls @ [x])"
  using assms
  by (simp add: kept_as_orphan_def find_findIndex
      findIndex_snoc [of "\<lambda>l. checkoutId l = CheckoutRequestID cb" ls x])

lemma mpesa_status_found:
  assumes "find (\<lambda>l. checkoutId l = JStr c) ls = Some x" and "c \<noteq> []"
  shows "fst (mpesa_status (Some c) ls) = 200"
  using assms by (simp add: mpesa_status_def)

text \<open>No callback changes the phone of a log that exists.\<close>

lemma phones_server_callback:
  "take (length ls) (map phone (snd (server_callback ts body ls))) = map phone ls"
  by (cases body; cases "findIndex (\<lambda>l. checkoutId l = CheckoutRequestID (the body)) ls")
     (auto simp: server_callback_def map_update list_update_same_conv
        dest: findIndex_Some)

lemma phones_server2_callback:
  "take (length ls) (map phone (snd (server2_callback now ts body ls))) = map phone ls"
  by (cases body; cases "findIndex (\<lambda>l. checkoutId l = CheckoutRequestID (the body)) ls")
     (auto simp: server2_callback_def map_update list_update_same_conv
        dest: findIndex_Some)

lemma phones_part000_callback:
  "take (length ls) (map phone (snd (part000_callback now ts body ls))) = map phone ls"
  by (cases body; cases "findIndex (\<lambda>l. checkoutId l = CheckoutRequestID (the body)) ls")
     (auto simp: part000_callback_def map_update list_update_same_conv
        dest: findIndex_Some)

lemma phones_part001_callback:
  "take (length ls) (map phone (snd (part001_callback ts body ls))) = map phone ls"
  by (cases body; cases "findIndex (\<lambda>l. checkoutId l = CheckoutRequestID (the body)) ls")
     (auto simp: part001_callback_def Let_def map_update list_update_same_conv
        dest: findIndex_Some)

section \<open>Reconciliation\<close>

text \<open>
  Claim C1, as the code has it. The handlers do not look at the state of the log
  they find. A callback whose identifier a log has rewrites that log, whatever its
  status was (pending or already terminal: the last delivery wins): the status becomes
  \<open>Success\<close> or \<open>Failed\<close> by the result code, and the receipt and the description
  are overwritten with those of the callback (the new log is given in full for each
  version: the receipt and description fall back to \<open>null\<close> where the source
  writes \<open>|| null\<close>, the expiry is stamped on a success, part_001 notes the paid
  amount). Phone, amount, event, template, timestamp, identifier and details of the log
  stay, and no other log changes. Delivering the same callback again leaves status,
  receipt and description as the first delivery set them.
\<close>

theorem callback_overwrites:
  assumes found: "findIndex (\<lambda>l. checkoutId l = CheckoutRequestID cb) ls = Some i"
  shows "i < length ls
     \<and> (outcome cb = JStr ''Success'' \<or> outcome cb = JStr ''Failed'')
     \<and> snd (server_callback ts (Some cb) ls)
         = ls[i := (ls ! i)\<lparr>status := outcome cb,
                             mpesaReceipt := opt_Value (receiptItem cb),
                             resultDesc := ResultDesc cb\<rparr>]
     \<and> snd (server2_callback now ts (Some cb) ls)
         = ls[i := (ls ! i)\<lparr>status := outcome cb,
                             mpesaReceipt := js_or (opt_Value (receiptItem cb)) JNull,
                             resultDesc := js_or (ResultDesc cb) JNull,
                             expiry := (if ResultCode cb = JNum 0
                                        then JNum (of_int (now + 1000 * 60 * 60 * 12))
                                        else expiry (ls ! i))\<rparr>]
     \<and> snd (part000_callback now ts (Some cb) ls)
         = ls[i := (ls ! i)\<lparr>status := outcome cb,
                             mpesaReceipt := js_or (opt_Value (receiptItem cb)) JNull,
                             resultDesc := js_or (ResultDesc cb) JNull,
                             expiry := (if ResultCode cb = JNum 0
                                        then JNum (of_int (now + 1000 * 60 * 60 * 12))
                                        else expiry (ls ! i))\<rparr>]
     \<and> snd (part001_callback ts (Some cb) ls)
         = ls[i := (ls ! i)\<lparr>status := outcome cb,
                             mpesaReceipt := js_or (opt_Value (receiptItem cb)) JNull,
                             resultDesc := ResultDesc cb,
                             paidAmount := (if truthy (js_or (opt_Value (amountItem cb)) JNull)
                                            then js_or (opt_Value (amountItem cb)) JNull
                                            else paidAmount (ls ! i))\<rparr>]
     \<and> terminal_fields (snd (server_callback ts (Some cb) ls) ! i)
         = (outcome cb, opt_Value (receiptItem cb), ResultDesc cb)
     \<and> terminal_fields (snd (server2_callback now ts (Some cb) ls) ! i)
         = (outcome cb, js_or (opt_Value (receiptItem cb)) JNull, js_or (ResultDesc cb) JNull)
     \<and> terminal_fields (snd (part000_callback now ts (Some cb) ls) ! i)
         = (outcome cb, js_or (opt_Value (receiptItem cb)) JNull, js_or (ResultDesc cb) JNull)
     \<and> terminal_fields (snd (part001_callback ts (Some cb) ls) ! i)
         = (outcome cb, js_or (opt_Value (receiptItem cb)) JNull, ResultDesc cb)
     \<and> settles cb i ls (snd (server_callback ts (Some cb) ls))
     \<and> settles cb i ls (snd (server2_callback now ts (Some cb) ls))
     \<and> settles cb i ls (snd (part000_callback now ts (Some cb) ls))
     \<and> settles cb i ls (snd (part001_callback ts (Some cb) ls))
     \<and> terminal_fields (snd (server_callback ts' (Some cb) (snd (server_callback ts (Some cb) ls))) ! i)
         = terminal_fields (snd (server_callback ts (Some cb) ls) ! i)
     \<and> terminal_fields (snd (server2_callback now' ts' (Some cb) (snd (server2_callback now ts (Some cb) ls))) ! i)
         = terminal_fields (snd (server2_callback now ts (Some cb) ls) ! i)
     \<and> terminal_fields (snd (part000_callback now' ts' (Some cb) (snd (part000_callback now ts (Some cb) ls))) ! i)
         = terminal_fields (snd (part000_callback now ts (Some cb) ls) ! i)
     \<and> terminal_fields (snd (part001_callback ts' (Some cb) (snd (part001_callback ts (Some cb) ls))) ! i)
         = terminal_fields (snd (part001_callback ts (Some cb) ls) ! i)"
proof -
  from found have i: "i < length ls" and c: "checkoutId (ls ! i) = CheckoutRequestID cb"
    using findIndex_Some [of "\<lambda>l. checkoutId l = CheckoutRequestID cb" ls i] by simp_all
  have e1: "snd (server_callback ts (Some cb) ls)
         = ls[i := (ls ! i)\<lparr>status := outcome cb,
                             mpesaReceipt := opt_Value (receiptItem cb),
                             resultDesc := ResultDesc cb\<rparr>]"
    by (simp add: server_callback_found [OF found])
  have e2: "snd (server2_callback now ts (Some cb) ls)
         = ls[i := (ls ! i)\<lparr>status := outcome cb,
                             mpesaReceipt := js_or (opt_Value (receiptItem cb)) JNull,
                             resultDesc := js_or (ResultDesc cb) JNull,
                             expiry := (if ResultCode cb = JNum 0
                                        then JNum (of_int (now + 1000 * 60 * 60 * 12))
                                        else expiry (ls ! i))\<rparr>]"
    by (simp add: server2_callback_found [OF found])
  have e3: "snd (part000_callback now ts (Some cb) ls)
         = ls[i := (ls ! i)\<lparr>status := outcome cb,
                             mpesaReceipt := js_or (opt_Value (receiptItem cb)) JNull,
                             resultDesc := js_or (ResultDesc cb) JNull,
                             expiry := (if ResultCode cb = JNum 0
                                        then JNum (of_int (now + 1000 * 60 * 60 * 12))
                                        else expiry (ls ! i))\<rparr>]"
    by (simp add: part000_callback_found [OF found])
  have e4: "snd (part001_callback ts (Some cb) ls)
         = ls[i := (ls ! i)\<lparr>status := outcome cb,
                             mpesaReceipt := js_or (opt_Value (receiptItem cb)) JNull,
                             resultDesc := ResultDesc cb,
                             paidAmount := (if truthy (js_or (opt_Value (amountItem cb)) JNull)
                                            then js_or (opt_Value (amountItem cb)) JNull
                                            else paidAmount (ls ! i))\<rparr>]"
    by (simp add: part001_callback_found [OF found])
  have f1: "terminal_fields (snd (server_callback ts (Some cb) ls) ! i)
         = (outcome cb, opt_Value (receiptItem cb), ResultDesc cb)"
    using i by (simp add: e1 terminal_fields_def)
  have f2: "terminal_fields (snd (server2_callback now ts (Some cb) ls) ! i)
         = (outcome cb, js_or (opt_Value (receiptItem cb)) JNull, js_or (ResultDesc cb) JNull)"
    using i by (simp add: e2 terminal_fields_def)
  have f3: "terminal_fields (snd (part000_callback now ts (Some cb) ls) ! i)
         = (outcome cb, js_or (opt_Value (receiptItem cb)) JNull, js_or (ResultDesc cb) JNull)"
    using i by (simp add: e3 terminal_fields_def)
  have f4: "terminal_fields (snd (part001_callback ts (Some cb) ls) ! i)
         = (outcome cb, js_or (opt_Value (receiptItem cb)) JNull, ResultDesc cb)"
    using i by (simp add: e4 terminal_fields_def)
  have s1: "settles cb i ls (snd (server_callback ts (Some cb) ls))"
    using i by (simp add: server_callback_found [OF found] settles_def fixed_fields_def)
  have s2: "settles cb i ls (snd (server2_callback now ts (Some cb) ls))"
    using i by (simp add: server2_callback_found [OF found] settles_def fixed_fields_def)
  have s3: "settles cb i ls (snd (part000_callback now ts (Some cb) ls))"
    using i by (simp add: part000_callback_found [OF found] settles_def fixed_fields_def)
  have s4: "settles cb i ls (snd (part001_callback ts (Some cb) ls))"
    using i by (simp add: part001_callback_found [OF found] settles_def fixed_fields_def)
  have t1: "terminal_fields (snd (server_callback ts' (Some cb) (snd (server_callback ts (Some cb) ls))) ! i)
         = terminal_fields (snd (server_callback ts (Some cb) ls) ! i)"
    using i c
    by (simp add: server_callback_found [OF found] server_callback_found [OF found_again [OF found]]
        terminal_fields_def)
  have t2: "terminal_fields (snd (server2_callback now' ts' (Some cb) (snd (server2_callback now ts (Some cb) ls))) ! i)
         = terminal_fields (snd (server2_callback now ts (Some cb) ls) ! i)"
    using i c
    by (simp add: server2_callback_found [OF found] server2_callback_found [OF found_again [OF found]]
        terminal_fields_def)
  have t3: "terminal_fields (snd (part000_callback now' ts' (Some cb) (snd (part000_callback now ts (Some cb) ls))) ! i)
         = terminal_fields (snd (part000_callback now ts (Some cb) ls) ! i)"
    using i c
    by (simp add: part000_callback_found [OF found] part000_callback_found [OF found_again [OF found]]
        terminal_fields_def)
  have t4: "terminal_fields (snd (part001_callback ts' (Some cb) (snd (part001_callback ts (Some cb) ls))) ! i)
         = terminal_fields (snd (part001_callback ts (Some cb) ls) ! i)"
    using i c
    by (simp add: part001_callback_found [OF found] part001_callback_found [OF found_again [OF found]]
        terminal_fields_def)
  from i outcome_cases [of cb] e1 e2 e3 e4 f1 f2 f3 f4 s1 s2 s3 s4 t1 t2 t3 t4
  show ?thesis by blast
qed

text \<open>
  An instance: a log already \<open>Failed\<close> is found by the success callback and settled
  by it.
\<close>

theorem callback_overwrites_witness:
  "findIndex (\<lambda>l. checkoutId l = CheckoutRequestID sample_paid)
       [sample_pending\<lparr>status := JStr ''Failed''\<rparr>] = Some 0
   \<and> settles sample_paid 0 [sample_pending\<lparr>status := JStr ''Failed''\<rparr>]
        (snd (server_callback ''20250101120600'' (Some sample_paid)
           [sample_pending\<lparr>status := JStr ''Failed''\<rparr>]))
   \<and> settles sample_paid 0 [sample_pending\<lparr>status := JStr ''Failed''\<rparr>]
        (snd (part000_callback 2000 ''20250101120600'' (Some sample_paid)
           [sample_pending\<lparr>status := JStr ''Failed''\<rparr>]))
   \<and> outcome sample_paid = JStr ''Success''
   \<and> terminal_fields (snd (part000_callback 2000 ''20250101120600'' (Some sample_paid)
           [sample_pending\<lparr>status := JStr ''Failed''\<rparr>]) ! 0)
       = (JStr ''Success'', JStr ''ABC123'',
          JStr ''The service request is processed successfully.'')"
proof -
  have f: "findIndex (\<lambda>l. checkoutId l = CheckoutRequestID sample_paid)
       [sample_pending\<lparr>status := JStr ''Failed''\<rparr>] = Some 0"
    by (simp add: samples)
  have o: "outcome sample_paid = JStr ''Success''"
    and r: "js_or (opt_Value (receiptItem sample_paid)) JNull = JStr ''ABC123''"
    and d: "js_or (ResultDesc sample_paid) JNull
            = JStr ''The service request is processed successfully.''"
    by (simp_all add: samples reading)
  from callback_overwrites [OF f, where ts = "''20250101120600''" and now = 2000
      and ts' = "''20250101120600''" and now' = 2000]
  have s: "settles sample_paid 0 [sample_pending\<lparr>status := JStr ''Failed''\<rparr>]
        (snd (server_callback ''20250101120600'' (Some sample_paid)
           [sample_pending\<lparr>status := JStr ''Failed''\<rparr>]))
     \<and> settles sample_paid 0 [sample_pending\<lparr>status := JStr ''Failed''\<rparr>]
        (snd (part000_callback 2000 ''20250101120600'' (Some sample_paid)
           [sample_pending\<lparr>status := JStr ''Failed''\<rparr>]))
     \<and> terminal_fields (snd (part000_callback 2000 ''20250101120600'' (Some sample_paid)
           [sample_pending\<lparr>status := JStr ''Failed''\<rparr>]) ! 0)
       = (outcome sample_paid, js_or (opt_Value (receiptItem sample_paid)) JNull,
          js_or (ResultDesc sample_paid) JNull)"
    by blast
  from s f o r d show ?thesis by simp
qed

text \<open>
  A terminal log is not immutable: after the cancellation the log is \<open>Failed\<close>, and
  the success callback that follows for the same identifier makes it \<open>Success\<close> with a
  receipt.
\<close>

theorem terminal_record_overwritten:
  "status (snd (part000_callback 1000 ''20250101120500'' (Some sample_cancelled) [sample_pending]) ! 0)
     = JStr ''Failed''
   \<and> status (snd (part000_callback 2000 ''20250101120600'' (Some sample_paid)
        (snd (part000_callback 1000 ''20250101120500'' (Some sample_cancelled) [sample_pending]))) ! 0)
     = JStr ''Success''
   \<and> mpesaReceipt (snd (part000_callback 2000 ''20250101120600'' (Some sample_paid)
        (snd (part000_callback 1000 ''20250101120500'' (Some sample_cancelled) [sample_pending]))) ! 0)
     = JStr ''ABC123''
   \<and> status (snd (server_callback ''20250101120600'' (Some sample_paid)
        (snd (server_callback ''20250101120500'' (Some sample_cancelled) [sample_pending]))) ! 0)
     = JStr ''Success''"
  by (simp add: part000_callback_def server_callback_def samples reading)

text \<open>
  Claim C2, as the code has it. For a callback whose identifier a log has, two
  deliveries leave exactly what one delivery leaves: equal to the single delivery in
  server.js (first version) and part_001, and equal to a single delivery at the time of
  the second in the versions that stamp an expiry (so equal when the clock did not move
  or the result is a failure); what one delivery leaves is given in full. For an
  identifier no log has, both deliveries are acknowledged and only one log is appended,
  but the second delivery finds that orphan and rewrites it: its status becomes the
  outcome of the result code, its receipt and description those of the callback (the
  list after the two deliveries is given in full). Every delivery is answered with the
  acknowledgement.
\<close>

theorem redelivery:
  "(findIndex (\<lambda>l. checkoutId l = CheckoutRequestID cb) ls = Some i \<longrightarrow>
      server_callback ts (Some cb) ls
          = ((200, Received),
             ls[i := (ls ! i)\<lparr>status := outcome cb,
                                 mpesaReceipt := opt_Value (receiptItem cb),
                                 resultDesc := ResultDesc cb\<rparr>])
      \<and> server_callback ts' (Some cb) (snd (server_callback ts (Some cb) ls))
          = server_callback ts (Some cb) ls
      \<and> server2_callback now ts (Some cb) ls
          = ((200, Received),
             ls[i := (ls ! i)\<lparr>status := outcome cb,
                                 mpesaReceipt := js_or (opt_Value (receiptItem cb)) JNull,
                                 resultDesc := js_or (ResultDesc cb) JNull,
                                 expiry := (if ResultCode cb = JNum 0
                                            then JNum (of_int (now + 1000 * 60 * 60 * 12))
                                            else expiry (ls ! i))\<rparr>])
      \<and> server2_callback now' ts' (Some cb) (snd (server2_callback now ts (Some cb) ls))
          = server2_callback now' ts (Some cb) ls
      \<and> (ResultCode cb \<noteq> JNum 0 \<longrightarrow>
           server2_callback now' ts' (Some cb) (snd (server2_callback now ts (Some cb) ls))
             = server2_callback now ts (Some cb) ls)
      \<and> part000_callback now ts (Some cb) ls
          = ((200, Received),
             ls[i := (ls ! i)\<lparr>status := outcome cb,
                                 mpesaReceipt := js_or (opt_Value (receiptItem cb)) JNull,
                                 resultDesc := js_or (ResultDesc cb) JNull,
                                 expiry := (if ResultCode cb = JNum 0
                                            then JNum (of_int (now + 1000 * 60 * 60 * 12))
                                            else expiry (ls ! i))\<rparr>])
      \<and> part000_callback now' ts' (Some cb) (snd (part000_callback now ts (Some cb) ls))
          = part000_callback now' ts (Some cb) ls
      \<and> (ResultCode cb \<noteq> JNum 0 \<longrightarrow>
           part000_callback now' ts' (Some cb) (snd (part000_callback now ts (Some cb) ls))
             = part000_callback now ts (Some cb) ls)
      \<and> part001_callback ts (Some cb) ls
          = ((200, Received),
             ls[i := (ls ! i)\<lparr>status := outcome cb,
                                 mpesaReceipt := js_or (opt_Value (receiptItem cb)) JNull,
                                 resultDesc := ResultDesc cb,
                                 paidAmount := (if truthy (js_or (opt_Value (amountItem cb)) JNull)
                                                then js_or (opt_Value (amountItem cb)) JNull
                                                else paidAmount (ls ! i))\<rparr>])
      \<and> part001_callback ts' (Some cb) (snd (part001_callback ts (Some cb) ls))
          = part001_callback ts (Some cb) ls)
   \<and> (findIndex (\<lambda>l. checkoutId l = CheckoutRequestID cb) ls = None \<longrightarrow>
      fst (server_callback ts (Some cb) ls) = (200, Received)
      \<and> server_callback ts' (Some cb) (snd (server_callback ts (Some cb) ls))
          = ((200, Received),
             ls @ [\<lparr>phone = JStr ''unknown'', amount = JNull, event = JUndefined,
                    template = JUndefined, status = outcome cb, timestamp = ts,
                    checkoutId = CheckoutRequestID cb, details = Delivered cb,
                    mpesaReceipt = opt_Value (receiptItem cb), resultDesc = ResultDesc cb,
                    expiry = JUndefined, paidAmount = JUndefined\<rparr>])
      \<and> fst (server2_callback now ts (Some cb) ls) = (200, Received)
      \<and> server2_callback now' ts' (Some cb) (snd (server2_callback now ts (Some cb) ls))
          = ((200, Received),
             ls @ [\<lparr>phone = JStr ''unknown'', amount = JNull, event = JUndefined,
                    template = JUndefined, status = outcome cb, timestamp = ts,
                    checkoutId = CheckoutRequestID cb, details = Delivered cb,
                    mpesaReceipt = js_or (opt_Value (receiptItem cb)) JNull,
                    resultDesc = js_or (ResultDesc cb) JNull,
                    expiry = (if ResultCode cb = JNum 0
                              then JNum (of_int (now' + 1000 * 60 * 60 * 12))
                              else JUndefined),
                    paidAmount = JUndefined\<rparr>])
      \<and> fst (part000_callback now ts (Some cb) ls) = (200, Received)
      \<and> part000_callback now' ts' (Some cb) (snd (part000_callback now ts (Some cb) ls))
          = ((200, Received),
             ls @ [\<lparr>phone = JStr ''unknown'', amount = JNull, event = JUndefined,
                    template = JUndefined, status = outcome cb, timestamp = ts,
                    checkoutId = CheckoutRequestID cb, details = Delivered cb,
                    mpesaReceipt = js_or (opt_Value (receiptItem cb)) JNull,
                    resultDesc = js_or (ResultDesc cb) JNull,
                    expiry = (if ResultCode cb = JNum 0
                              then JNum (of_int (now' + 1000 * 60 * 60 * 12))
                              else JUndefined),
                    paidAmount = JUndefined\<rparr>])
      \<and> fst (part001_callback ts (Some cb) ls) = (200, Received)
      \<and> part001_callback ts' (Some cb) (snd (part001_callback ts (Some cb) ls))
          = ((200, Received),
             ls @ [\<lparr>phone = JStr ''unknown'',
                    amount = js_or (js_or (opt_Value (amountItem cb)) JNull) JNull,
                    event = JUndefined, template = JUndefined, status = outcome cb,
                    timestamp = ts, checkoutId = CheckoutRequestID cb, details = Delivered cb,
                    mpesaReceipt = js_or (opt_Value (receiptItem cb)) JNull,
                    resultDesc = ResultDesc cb, expiry = JUndefined,
                    paidAmount = (if truthy (js_or (opt_Value (amountItem cb)) JNull)
                                  then js_or (opt_Value (amountItem cb)) JNull
                                  else JUndefined)\<rparr>])
      \<and> length (snd (server_callback ts' (Some cb) (snd (server_callback ts (Some cb) ls))))
          = length ls + 1
      \<and> length (snd (server2_callback now' ts' (Some cb) (snd (server2_callback now ts (Some cb) ls))))
          = length ls + 1
      \<and> length (snd (part000_callback now' ts' (Some cb) (snd (part000_callback now ts (Some cb) ls))))
          = length ls + 1
      \<and> length (snd (part001_callback ts' (Some cb) (snd (part001_callback ts (Some cb) ls))))
          = length ls + 1)"
proof -
  let ?p = "\<lambda>l. checkoutId l = CheckoutRequestID cb"
  have hit: "findIndex ?p ls = Some i \<Longrightarrow>
      server_callback ts (Some cb) ls
          = ((200, Received),
             ls[i := (ls ! i)\<lparr>status := outcome cb,
                                 mpesaReceipt := opt_Value (receiptItem cb),
                                 resultDesc := ResultDesc cb\<rparr>])
      \<and> server_callback ts' (Some cb) (snd (server_callback ts (Some cb) ls))
          = server_callback ts (Some cb) ls
      \<and> server2_callback now ts (Some cb) ls
          = ((200, Received),
             ls[i := (ls ! i)\<lparr>status := outcome cb,
                                 mpesaReceipt := js_or (opt_Value (receiptItem cb)) JNull,
                                 resultDesc := js_or (ResultDesc cb) JNull,
                                 expiry := (if ResultCode cb = JNum 0
                                            then JNum (of_int (now + 1000 * 60 * 60 * 12))
                                            else expiry (ls ! i))\<rparr>])
      \<and> server2_callback now' ts' (Some cb) (snd (server2_callback now ts (Some cb) ls))
          = server2_callback now' ts (Some cb) ls
      \<and> (ResultCode cb \<noteq> JNum 0 \<longrightarrow>
           server2_callback now' ts' (Some cb) (snd (server2_callback now ts (Some cb) ls))
             = server2_callback now ts (Some cb) ls)
      \<and> part000_callback now ts (Some cb) ls
          = ((200, Received),
             ls[i := (ls ! i)\<lparr>status := outcome cb,
                                 mpesaReceipt := js_or (opt_Value (receiptItem cb)) JNull,
                                 resultDesc := js_or (ResultDesc cb) JNull,
                                 expiry := (if ResultCode cb = JNum 0
                                            then JNum (of_int (now + 1000 * 60 * 60 * 12))
                                            else expiry (ls ! i))\<rparr>])
      \<and> part000_callback now' ts' (Some cb) (snd (part000_callback now ts (Some cb) ls))
          = part000_callback now' ts (Some cb) ls
      \<and> (ResultCode cb \<noteq> JNum 0 \<longrightarrow>
           part000_callback now' ts' (Some cb) (snd (part000_callback now ts (Some cb) ls))
             = part000_callback now ts (Some cb) ls)
      \<and> part001_callback ts (Some cb) ls
          = ((200, Received),
             ls[i := (ls ! i)\<lparr>status := outcome cb,
                                 mpesaReceipt := js_or (opt_Value (receiptItem cb)) JNull,
                                 resultDesc := ResultDesc cb,
                                 paidAmount := (if truthy (js_or (opt_Value (amountItem cb)) JNull)
                                                then js_or (opt_Value (amountItem cb)) JNull
                                                else paidAmount (ls ! i))\<rparr>])
      \<and> part001_callback ts' (Some cb) (snd (part001_callback ts (Some cb) ls))
          = part001_callback ts (Some cb) ls"
  proof -
    assume found: "findIndex ?p ls = Some i"
    from found have i: "i < length ls" and c: "checkoutId (ls ! i) = CheckoutRequestID cb"
      using findIndex_Some [of ?p ls i] by simp_all
    have a: "server_callback ts' (Some cb) (snd (server_callback ts (Some cb) ls))
          = server_callback ts (Some cb) ls"
      using i c
      by (simp add: server_callback_found [OF found]
          server_callback_found [OF found_again [OF found]])
    have b: "server2_callback now' ts' (Some cb) (snd (server2_callback now ts (Some cb) ls))
          = server2_callback now' ts (Some cb) ls"
      using i c
      by (simp add: server2_callback_found [OF found]
          server2_callback_found [OF found_again [OF found]])
    have b': "ResultCode cb \<noteq> JNum 0 \<longrightarrow>
           server2_callback now' ts' (Some cb) (snd (server2_callback now ts (Some cb) ls))
             = server2_callback now ts (Some cb) ls"
    proof
      assume nz: "ResultCode cb \<noteq> JNum 0"
      have "server2_callback now' ts (Some cb) ls = server2_callback now ts (Some cb) ls"
        using nz by (simp add: server2_callback_found [OF found])
      with b show "server2_callback now' ts' (Some cb) (snd (server2_callback now ts (Some cb) ls))
             = server2_callback now ts (Some cb) ls"
        by simp
    qed
    have d: "part000_callback now' ts' (Some cb) (snd (part000_callback now ts (Some cb) ls))
          = part000_callback now' ts (Some cb) ls"
      using i c
      by (simp add: part000_callback_found [OF found]
          part000_callback_found [OF found_again [OF found]])
    have d': "ResultCode cb \<noteq> JNum 0 \<longrightarrow>
           part000_callback now' ts' (Some cb) (snd (part000_callback now ts (Some cb) ls))
             = part000_callback now ts (Some cb) ls"
    proof
      assume nz: "ResultCode cb \<noteq> JNum 0"
      have "part000_callback now' ts (Some cb) ls = part000_callback now ts (Some cb) ls"
        using nz by (simp add: part000_callback_found [OF found])
      with d show "part000_callback now' ts' (Some cb) (snd (part000_callback now ts (Some cb) ls))
             = part000_callback now ts (Some cb) ls"
        by simp
    qed
    have e: "part001_callback ts' (Some cb) (snd (part001_callback ts (Some cb) ls))
          = part001_callback ts (Some cb) ls"
      using i c
      by (simp add: part001_callback_found [OF found]
          part001_callback_found [OF found_again [OF found]])
    from a b b' d d' e
      server_callback_found [OF found, of ts] server2_callback_found [OF found, of now ts]
      part000_callback_found [OF found, of now ts] part001_callback_found [OF found, of ts]
    show ?thesis by blast
  qed
  have miss: "findIndex ?p ls = None \<Longrightarrow>
      fst (server_callback ts (Some cb) ls) = (200, Received)
      \<and> server_callback ts' (Some cb) (snd (server_callback ts (Some cb) ls))
          = ((200, Received),
             ls @ [\<lparr>phone = JStr ''unknown'', amount = JNull, event = JUndefined,
                    template = JUndefined, status = outcome cb, timestamp = ts,
                    checkoutId = CheckoutRequestID cb, details = Delivered cb,
                    mpesaReceipt = opt_Value (receiptItem cb), resultDesc = ResultDesc cb,
                    expiry = JUndefined, paidAmount = JUndefined\<rparr>])
      \<and> fst (server2_callback now ts (Some cb) ls) = (200, Received)
      \<and> server2_callback now' ts' (Some cb) (snd (server2_callback now ts (Some cb) ls))
          = ((200, Received),
             ls @ [\<lparr>phone = JStr ''unknown'', amount = JNull, event = JUndefined,
                    template = JUndefined, status = outcome cb, timestamp = ts,
                    checkoutId = CheckoutRequestID cb, details = Delivered cb,
                    mpesaReceipt = js_or (opt_Value (receiptItem cb)) JNull,
                    resultDesc = js_or (ResultDesc cb) JNull,
                    expiry = (if ResultCode cb = JNum 0
                              then JNum (of_int (now' + 1000 * 60 * 60 * 12))
                              else JUndefined),
                    paidAmount = JUndefined\<rparr>])
      \<and> fst (part000_callback now ts (Some cb) ls) = (200, Received)
      \<and> part000_callback now' ts' (Some cb) (snd (part000_callback now ts (Some cb) ls))
          = ((200, Received),
             ls @ [\<lparr>phone = JStr ''unknown'', amount = JNull, event = JUndefined,
                    template = JUndefined, status = outcome cb, timestamp = ts,
                    checkoutId = CheckoutRequestID cb, details = Delivered cb,
                    mpesaReceipt = js_or (opt_Value (receiptItem cb)) JNull,
                    resultDesc = js_or (ResultDesc cb) JNull,
                    expiry = (if ResultCode cb = JNum 0
                              then JNum (of_int (now' + 1000 * 60 * 60 * 12))
                              else JUndefined),
                    paidAmount = JUndefined\<rparr>])
      \<and> fst (part001_callback ts (Some cb) ls) = (200, Received)
      \<and> part001_callback ts' (Some cb) (snd (part001_callback ts (Some cb) ls))
          = ((200, Received),
             ls @ [\<lparr>phone = JStr ''unknown'',
                    amount = js_or (js_or (opt_Value (amountItem cb)) JNull) JNull,
                    event = JUndefined, template = JUndefined, status = outcome cb,
                    timestamp = ts, checkoutId = CheckoutRequestID cb, details = Delivered cb,
                    mpesaReceipt = js_or (opt_Value (receiptItem cb)) JNull,
                    resultDesc = ResultDesc cb, expiry = JUndefined,
                    paidAmount = (if truthy (js_or (opt_Value (amountItem cb)) JNull)
                                  then js_or (opt_Value (amountItem cb)) JNull
                                  else JUndefined)\<rparr>])
      \<and> length (snd (server_callback ts' (Some cb) (snd (server_callback ts (Some cb) ls))))
          = length ls + 1
      \<and> length (snd (server2_callback now' ts' (Some cb) (snd (server2_callback now ts (Some cb) ls))))
          = length ls + 1
      \<and> length (snd (part000_callback now' ts' (Some cb) (snd (part000_callback now ts (Some cb) ls))))
          = length ls + 1
      \<and> length (snd (part001_callback ts' (Some cb) (snd (part001_callback ts (Some cb) ls))))
          = length ls + 1"
  proof -
    assume none: "findIndex ?p ls = None"
    have again: "\<And>x. checkoutId x = CheckoutRequestID cb \<Longrightarrow>
        findIndex ?p (ls @ [x]) = Some (length ls)"
      using none by (simp add: findIndex_snoc [of ?p ls])
    have a: "server_callback ts' (Some cb) (snd (server_callback ts (Some cb) ls))
          = ((200, Received),
             ls @ [\<lparr>phone = JStr ''unknown'', amount = JNull, event = JUndefined,
                    template = JUndefined, status = outcome cb, timestamp = ts,
                    checkoutId = CheckoutRequestID cb, details = Delivered cb,
                    mpesaReceipt = opt_Value (receiptItem cb), resultDesc = ResultDesc cb,
                    expiry = JUndefined, paidAmount = JUndefined\<rparr>])"
      by (simp add: server_callback_orphan [OF none] server_callback_found [OF again])
    have b: "server2_callback now' ts' (Some cb) (snd (server2_callback now ts (Some cb) ls))
          = ((200, Received),
             ls @ [\<lparr>phone = JStr ''unknown'', amount = JNull, event = JUndefined,
                    template = JUndefined, status = outcome cb, timestamp = ts,
                    checkoutId = CheckoutRequestID cb, details = Delivered cb,
                    mpesaReceipt = js_or (opt_Value (receiptItem cb)) JNull,
                    resultDesc = js_or (ResultDesc cb) JNull,
                    expiry = (if ResultCode cb = JNum 0
                              then JNum (of_int (now' + 1000 * 60 * 60 * 12))
                              else JUndefined),
                    paidAmount = JUndefined\<rparr>])"
      by (simp add: server2_callback_orphan [OF none] server2_callback_found [OF again])
    have d: "part000_callback now' ts' (Some cb) (snd (part000_callback now ts (Some cb) ls))
          = ((200, Received),
             ls @ [\<lparr>phone = JStr ''unknown'', amount = JNull, event = JUndefined,
                    template = JUndefined, status = outcome cb, timestamp = ts,
                    checkoutId = CheckoutRequestID cb, details = Delivered cb,
                    mpesaReceipt = js_or (opt_Value (receiptItem cb)) JNull,
                    resultDesc = js_or (ResultDesc cb) JNull,
                    expiry = (if ResultCode cb = JNum 0
                              then JNum (of_int (now' + 1000 * 60 * 60 * 12))
                              else JUndefined),
                    paidAmount = JUndefined\<rparr>])"
      by (simp add: part000_callback_orphan [OF none] part000_callback_found [OF again])
    have e: "part001_callback ts' (Some cb) (snd (part001_callback ts (Some cb) ls))
          = ((200, Received),
             ls @ [\<lparr>phone = JStr ''unknown'',
                    amount = js_or (js_or (opt_Value (amountItem cb)) JNull) JNull,
                    event = JUndefined, template = JUndefined, status = outcome cb,
                    timestamp = ts, checkoutId = CheckoutRequestID cb, details = Delivered cb,
                    mpesaReceipt = js_or (opt_Value (receiptItem cb)) JNull,
                    resultDesc = ResultDesc cb, expiry = JUndefined,
                    paidAmount = (if truthy (js_or (opt_Value (amountItem cb)) JNull)
                                  then js_or (opt_Value (amountItem cb)) JNull
                                  else JUndefined)\<rparr>])"
      by (simp add: part001_callback_orphan [OF none] part001_callback_found [OF again])
    have f: "fst (server_callback ts (Some cb) ls) = (200, Received)
      \<and> fst (server2_callback now ts (Some cb) ls) = (200, Received)
      \<and> fst (part000_callback now ts (Some cb) ls) = (200, Received)
      \<and> fst (part001_callback ts (Some cb) ls) = (200, Received)"
      by (simp add: server_callback_orphan [OF none] server2_callback_orphan [OF none]
          part000_callback_orphan [OF none] part001_callback_orphan [OF none])
    from f show ?thesis by (simp add: a b d e)
  qed
  from hit miss show ?thesis by blast
qed

theorem redelivery_witness:
  "findIndex (\<lambda>l. checkoutId l = CheckoutRequestID sample_paid) [sample_pending] = Some 0
   \<and> part000_callback 2000 ''20250101120600'' (Some sample_paid)
        (snd (part000_callback 1000 ''20250101120500'' (Some sample_paid) [sample_pending]))
       = part000_callback 2000 ''20250101120500'' (Some sample_paid) [sample_pending]
   \<and> part001_callback ''20250101120600'' (Some sample_paid)
        (snd (part001_callback ''20250101120500'' (Some sample_paid) [sample_pending]))
       = part001_callback ''20250101120500'' (Some sample_paid) [sample_pending]
   \<and> findIndex (\<lambda>l. checkoutId l = CheckoutRequestID sample_cancelled) [sample_pending] = Some 0
   \<and> ResultCode sample_cancelled \<noteq> JNum 0
   \<and> part000_callback 2000 ''20250101120600'' (Some sample_cancelled)
        (snd (part000_callback 1000 ''20250101120500'' (Some sample_cancelled) [sample_pending]))
       = part000_callback 1000 ''20250101120500'' (Some sample_cancelled) [sample_pending]
   \<and> findIndex (\<lambda>l. checkoutId l = CheckoutRequestID sample_unknown) [sample_pending] = None
   \<and> fst (part000_callback 1000 ''20250101120500'' (Some sample_unknown) [sample_pending])
       = (200, Received)
   \<and> fst (part000_callback 2000 ''20250101120600'' (Some sample_unknown)
        (snd (part000_callback 1000 ''20250101120500'' (Some sample_unknown) [sample_pending])))
       = (200, Received)
   \<and> status (last (snd (part000_callback 2000 ''20250101120600'' (Some sample_unknown)
        (snd (part000_callback 1000 ''20250101120500'' (Some sample_unknown) [sample_pending])))))
       = JStr ''Success''
   \<and> length (snd (part000_callback 2000 ''20250101120600'' (Some sample_unknown)
        (snd (part000_callback 1000 ''20250101120500'' (Some sample_unknown) [sample_pending]))))
       = length [sample_pending] + 1"
proof -
  have f: "findIndex (\<lambda>l. checkoutId l = CheckoutRequestID sample_paid) [sample_pending] = Some 0"
    and g: "findIndex (\<lambda>l. checkoutId l = CheckoutRequestID sample_cancelled) [sample_pending] = Some 0"
    and n: "findIndex (\<lambda>l. checkoutId l = CheckoutRequestID sample_unknown) [sample_pending] = None"
    and r: "ResultCode sample_cancelled \<noteq> JNum 0"
    and o: "outcome sample_unknown = JStr ''Success''"
    by (simp_all add: samples outcome_def)
  from f redelivery [where cb = sample_paid and ls = "[sample_pending]" and i = 0
      and ts = "''20250101120500''" and ts' = "''20250101120600''" and now = 1000 and now' = 2000]
  have w1: "part000_callback 2000 ''20250101120600'' (Some sample_paid)
        (snd (part000_callback 1000 ''20250101120500'' (Some sample_paid) [sample_pending]))
       = part000_callback 2000 ''20250101120500'' (Some sample_paid) [sample_pending]
     \<and> part001_callback ''20250101120600'' (Some sample_paid)
        (snd (part001_callback ''20250101120500'' (Some sample_paid) [sample_pending]))
       = part001_callback ''20250101120500'' (Some sample_paid) [sample_pending]"
    by blast
  from g r redelivery [where cb = sample_cancelled and ls = "[sample_pending]" and i = 0
      and ts = "''20250101120500''" and ts' = "''20250101120600''" and now = 1000 and now' = 2000]
  have w2: "part000_callback 2000 ''20250101120600'' (Some sample_cancelled)
        (snd (part000_callback 1000 ''20250101120500'' (Some sample_cancelled) [sample_pending]))
       = part000_callback 1000 ''20250101120500'' (Some sample_cancelled) [sample_pending]"
    by blast
  from n redelivery [where cb = sample_unknown and ls = "[sample_pending]" and i = 0
      and ts = "''20250101120500''" and ts' = "''20250101120600''" and now = 1000 and now' = 2000]
  have w3: "fst (part000_callback 1000 ''20250101120500'' (Some sample_unknown) [sample_pending])
       = (200, Received)
     \<and> part000_callback 2000 ''20250101120600'' (Some sample_unknown)
        (snd (part000_callback 1000 ''20250101120500'' (Some sample_unknown) [sample_pending]))
          = ((200, Received),
             [sample_pending] @ [\<lparr>phone = JStr ''unknown'', amount = JNull, event = JUndefined,
                    template = JUndefined, status = outcome sample_unknown,
                    timestamp = ''20250101120500'',
                    checkoutId = CheckoutRequestID sample_unknown, details = Delivered sample_unknown,
                    mpesaReceipt = js_or (opt_Value (receiptItem sample_unknown)) JNull,
                    resultDesc = js_or (ResultDesc sample_unknown) JNull,
                    expiry = (if ResultCode sample_unknown = JNum 0
                              then JNum (of_int (2000 + 1000 * 60 * 60 * 12))
                              else JUndefined),
                    paidAmount = JUndefined\<rparr>])"
    by blast
  from w3 o have w4: "fst (part000_callback 2000 ''20250101120600'' (Some sample_unknown)
        (snd (part000_callback 1000 ''20250101120500'' (Some sample_unknown) [sample_pending])))
       = (200, Received)
     \<and> status (last (snd (part000_callback 2000 ''20250101120600'' (Some sample_unknown)
        (snd (part000_callback 1000 ''20250101120500'' (Some sample_unknown) [sample_pending])))))
       = JStr ''Success''
     \<and> length (snd (part000_callback 2000 ''20250101120600'' (Some sample_unknown)
        (snd (part000_callback 1000 ''20250101120500'' (Some sample_unknown) [sample_pending]))))
       = length [sample_pending] + 1"
    by simp
  from f g n r w1 w2 w3 w4 show ?thesis by blast
qed

text \<open>
  Two deliveries are not one delivery for an unknown identifier (the orphan's status,
  the description after the first delivery, is \<open>Success\<close> after the second), nor,
  where an expiry is stamped, for a success delivered at two different times.
\<close>

theorem redelivery_not_idempotent:
  "snd (server_callback ''20250101120600'' (Some sample_unknown)
        (snd (server_callback ''20250101120500'' (Some sample_unknown) [])))
     \<noteq> snd (server_callback ''20250101120500'' (Some sample_unknown) [])
   \<and> status (last (snd (server_callback ''20250101120500'' (Some sample_unknown) [])))
     = JStr ''The service request is processed successfully.''
   \<and> status (last (snd (server_callback ''20250101120600'' (Some sample_unknown)
        (snd (server_callback ''20250101120500'' (Some sample_unknown) [])))))
     = JStr ''Success''
   \<and> snd (part000_callback 2000 ''20250101120600'' (Some sample_paid)
        (snd (part000_callback 1000 ''20250101120500'' (Some sample_paid) [sample_pending])))
     \<noteq> snd (part000_callback 1000 ''20250101120500'' (Some sample_paid) [sample_pending])"
  by (simp add: part000_callback_def server_callback_def samples reading)

text \<open>
  Claim C3, as the code has it. A callback whose identifier no log has appends one
  log and changes nothing else; the lookup by that identifier finds the new log (and
  \<open>GET /api/mpesa/status\<close> answers 200 for it when the identifier is a non-empty
  string); the log carries the whole callback as its details. Its status is the
  callback's description text (with the fallbacks of part_000 and part_001 when the
  description is empty), not one of the two terminal states.
\<close>

theorem unknown_callback_is_kept:
  assumes none: "findIndex (\<lambda>l. checkoutId l = CheckoutRequestID cb) ls = None"
  shows "kept_as_orphan cb ls (snd (server_callback ts (Some cb) ls))
     \<and> status (last (snd (server_callback ts (Some cb) ls))) = ResultDesc cb
     \<and> kept_as_orphan cb ls (snd (server2_callback now ts (Some cb) ls))
     \<and> status (last (snd (server2_callback now ts (Some cb) ls))) = ResultDesc cb
     \<and> kept_as_orphan cb ls (snd (part000_callback now ts (Some cb) ls))
     \<and> status (last (snd (part000_callback now ts (Some cb) ls)))
         = js_or (ResultDesc cb) (outcome cb)
     \<and> kept_as_orphan cb ls (snd (part001_callback ts (Some cb) ls))
     \<and> status (last (snd (part001_callback ts (Some cb) ls)))
         = js_or (ResultDesc cb) (JStr ''Unknown'')
     \<and> (CheckoutRequestID cb = JStr c \<and> c \<noteq> [] \<longrightarrow>
          fst (mpesa_status (Some c) (snd (server2_callback now ts (Some cb) ls))) = 200
          \<and> fst (mpesa_status (Some c) (snd (part000_callback now ts (Some cb) ls))) = 200)"
proof -
  have k1: "kept_as_orphan cb ls (snd (server_callback ts (Some cb) ls))"
    by (simp add: server_callback_orphan [OF none] kept_as_orphan_snoc [OF none])
  have k2: "kept_as_orphan cb ls (snd (server2_callback now ts (Some cb) ls))"
    by (simp add: server2_callback_orphan [OF none] kept_as_orphan_snoc [OF none])
  have k3: "kept_as_orphan cb ls (snd (part000_callback now ts (Some cb) ls))"
    by (simp add: part000_callback_orphan [OF none] kept_as_orphan_snoc [OF none])
  have k4: "kept_as_orphan cb ls (snd (part001_callback ts (Some cb) ls))"
    by (simp add: part001_callback_orphan [OF none] kept_as_orphan_snoc [OF none])
  have s1: "status (last (snd (server_callback ts (Some cb) ls))) = ResultDesc cb"
    by (simp add: server_callback_orphan [OF none])
  have s2: "status (last (snd (server2_callback now ts (Some cb) ls))) = ResultDesc cb"
    by (simp add: server2_callback_orphan [OF none])
  have s3: "status (last (snd (part000_callback now ts (Some cb) ls)))
         = js_or (ResultDesc cb) (outcome cb)"
    by (simp add: part000_callback_orphan [OF none])
  have s4: "status (last (snd (part001_callback ts (Some cb) ls)))
         = js_or (ResultDesc cb) (JStr ''Unknown'')"
    by (simp add: part001_callback_orphan [OF none])
  have q: "CheckoutRequestID cb = JStr c \<and> c \<noteq> [] \<longrightarrow>
          fst (mpesa_status (Some c) (snd (server2_callback now ts (Some cb) ls))) = 200
          \<and> fst (mpesa_status (Some c) (snd (part000_callback now ts (Some cb) ls))) = 200"
    using k2 k3 by (auto simp: kept_as_orphan_def intro: mpesa_status_found)
  from k1 k2 k3 k4 s1 s2 s3 s4 q show ?thesis by blast
qed

theorem unknown_callback_is_kept_witness:
  "findIndex (\<lambda>l. checkoutId l = CheckoutRequestID sample_unknown) [sample_pending] = None
   \<and> CheckoutRequestID sample_unknown = JStr ''ZZZ999'' \<and> ''ZZZ999'' \<noteq> []
   \<and> kept_as_orphan sample_unknown [sample_pending]
        (snd (part000_callback 1000 ''20250101120500'' (Some sample_unknown) [sample_pending]))
   \<and> kept_as_orphan sample_unknown [sample_pending]
        (snd (part001_callback ''20250101120500'' (Some sample_unknown) [sample_pending]))
   \<and> fst (mpesa_status (Some ''ZZZ999'')
        (snd (part000_callback 1000 ''20250101120500'' (Some sample_unknown) [sample_pending]))) = 200"
proof -
  have n: "findIndex (\<lambda>l. checkoutId l = CheckoutRequestID sample_unknown) [sample_pending] = None"
    by (simp add: samples)
  have c: "CheckoutRequestID sample_unknown = JStr ''ZZZ999''" and e: "''ZZZ999'' \<noteq> []"
    by (simp_all add: samples)
  from unknown_callback_is_kept [OF n, of "''20250101120500''" 1000 "''ZZZ999''"] n c e
  show ?thesis by blast
qed

text \<open>
  The orphan of a successful callback has the gateway's description as its status,
  which is neither \<open>Success\<close> nor \<open>Failed\<close>.
\<close>

theorem orphan_status_is_description:
  "findIndex (\<lambda>l. checkoutId l = CheckoutRequestID sample_unknown) [sample_pending] = None
   \<and> status (last (snd (server_callback ''20250101120500'' (Some sample_unknown) [sample_pending])))
     = JStr ''The service request is processed successfully.''
   \<and> status (last (snd (part000_callback 1000 ''20250101120500'' (Some sample_unknown) [sample_pending])))
     = JStr ''The service request is processed successfully.''
   \<and> status (last (snd (part001_callback ''20250101120500'' (Some sample_unknown) [sample_pending])))
     = JStr ''The service request is processed successfully.''
   \<and> JStr ''The service request is processed successfully.'' \<noteq> JStr ''Success''
   \<and> JStr ''The service request is processed successfully.'' \<noteq> JStr ''Failed''"
  by (simp add: part000_callback_def part001_callback_def server_callback_def samples reading)

text \<open>
  Claim C9, as the code has it. The receipt a reconciled log carries is the value of
  the callback's \<open>MpesaReceiptNumber\<close> item (\<open>undefined\<close> or \<open>null\<close> when
  the callback has none), whatever the result code: the log has a receipt after
  reconciliation exactly when the callback brought one. An orphan has no receipt in
  server.js and part_000, and the receipt of its callback in part_001.
\<close>

theorem receipt_follows_callback:
  "(findIndex (\<lambda>l. checkoutId l = CheckoutRequestID cb) ls = Some i \<longrightarrow>
      mpesaReceipt (snd (server_callback ts (Some cb) ls) ! i) = opt_Value (receiptItem cb)
      \<and> mpesaReceipt (snd (server2_callback now ts (Some cb) ls) ! i)
          = js_or (opt_Value (receiptItem cb)) JNull
      \<and> mpesaReceipt (snd (part000_callback now ts (Some cb) ls) ! i)
          = js_or (opt_Value (receiptItem cb)) JNull
      \<and> mpesaReceipt (snd (part001_callback ts (Some cb) ls) ! i)
          = js_or (opt_Value (receiptItem cb)) JNull
      \<and> truthy (mpesaReceipt (snd (server_callback ts (Some cb) ls) ! i))
          = truthy (opt_Value (receiptItem cb))
      \<and> truthy (mpesaReceipt (snd (server2_callback now ts (Some cb) ls) ! i))
          = truthy (opt_Value (receiptItem cb))
      \<and> truthy (mpesaReceipt (snd (part000_callback now ts (Some cb) ls) ! i))
          = truthy (opt_Value (receiptItem cb))
      \<and> truthy (mpesaReceipt (snd (part001_callback ts (Some cb) ls) ! i))
          = truthy (opt_Value (receiptItem cb)))
   \<and> (findIndex (\<lambda>l. checkoutId l = CheckoutRequestID cb) ls = None \<longrightarrow>
      mpesaReceipt (last (snd (server_callback ts (Some cb) ls))) = JUndefined
      \<and> mpesaReceipt (last (snd (server2_callback now ts (Some cb) ls))) = JUndefined
      \<and> mpesaReceipt (last (snd (part000_callback now ts (Some cb) ls))) = JUndefined
      \<and> mpesaReceipt (last (snd (part001_callback ts (Some cb) ls)))
          = js_or (opt_Value (receiptItem cb)) JNull)"
proof -
  have hit: "findIndex (\<lambda>l. checkoutId l = CheckoutRequestID cb) ls = Some i \<Longrightarrow>
      mpesaReceipt (snd (server_callback ts (Some cb) ls) ! i) = opt_Value (receiptItem cb)
      \<and> mpesaReceipt (snd (server2_callback now ts (Some cb) ls) ! i)
          = js_or (opt_Value (receiptItem cb)) JNull
      \<and> mpesaReceipt (snd (part000_callback now ts (Some cb) ls) ! i)
          = js_or (opt_Value (receiptItem cb)) JNull
      \<and> mpesaReceipt (snd (part001_callback ts (Some cb) ls) ! i)
          = js_or (opt_Value (receiptItem cb)) JNull
      \<and> truthy (mpesaReceipt (snd (server_callback ts (Some cb) ls) ! i))
          = truthy (opt_Value (receiptItem cb))
      \<and> truthy (mpesaReceipt (snd (server2_callback now ts (Some cb) ls) ! i))
          = truthy (opt_Value (receiptItem cb))
      \<and> truthy (mpesaReceipt (snd (part000_callback now ts (Some cb) ls) ! i))
          = truthy (opt_Value (receiptItem cb))
      \<and> truthy (mpesaReceipt (snd (part001_callback ts (Some cb) ls) ! i))
          = truthy (opt_Value (receiptItem cb))"
  proof -
    assume found: "findIndex (\<lambda>l. checkoutId l = CheckoutRequestID cb) ls = Some i"
    from found have i: "i < length ls"
      using findIndex_Some [of "\<lambda>l. checkoutId l = CheckoutRequestID cb" ls i] by simp
    show ?thesis
      using i
      by (simp add: server_callback_found [OF found] server2_callback_found [OF found]
          part000_callback_found [OF found] part001_callback_found [OF found] js_or_null_truthy)
  qed
  have miss: "findIndex (\<lambda>l. checkoutId l = CheckoutRequestID cb) ls = None \<Longrightarrow>
      mpesaReceipt (last (snd (server_callback ts (Some cb) ls))) = JUndefined
      \<and> mpesaReceipt (last (snd (server2_callback now ts (Some cb) ls))) = JUndefined
      \<and> mpesaReceipt (last (snd (part000_callback now ts (Some cb) ls))) = JUndefined
      \<and> mpesaReceipt (last (snd (part001_callback ts (Some cb) ls)))
          = js_or (opt_Value (receiptItem cb)) JNull"
    by (simp add: server_callback_orphan server2_callback_orphan part000_callback_orphan
        part001_callback_orphan)
  from hit miss show ?thesis by blast
qed

theorem receipt_follows_callback_witness:
  "findIndex (\<lambda>l. checkoutId l = CheckoutRequestID sample_cancelled) [sample_pending] = Some 0
   \<and> opt_Value (receiptItem sample_cancelled) = JUndefined
   \<and> mpesaReceipt (snd (server_callback ''20250101120500'' (Some sample_cancelled) [sample_pending]) ! 0)
       = JUndefined
   \<and> mpesaReceipt (snd (part000_callback 1000 ''20250101120500'' (Some sample_cancelled)
        [sample_pending]) ! 0) = JNull
   \<and> \<not> truthy (mpesaReceipt (snd (part001_callback ''20250101120500'' (Some sample_cancelled)
        [sample_pending]) ! 0))
   \<and> findIndex (\<lambda>l. checkoutId l = CheckoutRequestID sample_unknown) [sample_pending] = None
   \<and> opt_Value (receiptItem sample_unknown) = JStr ''ABC123''
   \<and> mpesaReceipt (last (snd (part000_callback 1000 ''20250101120500'' (Some sample_unknown)
        [sample_pending]))) = JUndefined
   \<and> mpesaReceipt (last (snd (part001_callback ''20250101120500'' (Some sample_unknown)
        [sample_pending]))) = JStr ''ABC123''"
proof -
  have f: "findIndex (\<lambda>l. checkoutId l = CheckoutRequestID sample_cancelled) [sample_pending] = Some 0"
    and n: "findIndex (\<lambda>l. checkoutId l = CheckoutRequestID sample_unknown) [sample_pending] = None"
    by (simp_all add: samples)
  have r: "opt_Value (receiptItem sample_cancelled) = JUndefined"
    and r': "opt_Value (receiptItem sample_unknown) = JStr ''ABC123''"
    by (simp_all add: samples reading)
  from f n r r'
    receipt_follows_callback [of sample_cancelled "[sample_pending]" 0 "''20250101120500''" 1000]
    receipt_follows_callback [of sample_unknown "[sample_pending]" 0 "''20250101120500''" 1000]
  show ?thesis by (simp add: js_or_def)
qed

text \<open>
  A callback with a failure code and a receipt item leaves a \<open>Failed\<close> log with
  that receipt, and the orphan of part_001 has a receipt under a status that is the
  description, not \<open>Success\<close>.
\<close>

theorem failed_record_with_receipt:
  "status (snd (part000_callback 1000 ''20250101120500'' (Some sample_cancelled_with_receipt)
        [sample_pending]) ! 0) = JStr ''Failed''
   \<and> mpesaReceipt (snd (part000_callback 1000 ''20250101120500'' (Some sample_cancelled_with_receipt)
        [sample_pending]) ! 0) = JStr ''ABC123''
   \<and> status (snd (server_callback ''20250101120500'' (Some sample_cancelled_with_receipt)
        [sample_pending]) ! 0) = JStr ''Failed''
   \<and> mpesaReceipt (snd (server_callback ''20250101120500'' (Some sample_cancelled_with_receipt)
        [sample_pending]) ! 0) = JStr ''ABC123''
   \<and> status (last (snd (part001_callback ''20250101120500'' (Some sample_unknown) [sample_pending])))
       = JStr ''The service request is processed successfully.''
   \<and> mpesaReceipt (last (snd (part001_callback ''20250101120500'' (Some sample_unknown)
        [sample_pending]))) = JStr ''ABC123''"
  by (simp add: part000_callback_def part001_callback_def server_callback_def samples reading)

section \<open>The queries by phone\<close>

lemma server_status_phone:
  "server_status (Some p) ls = (200, Entry l) \<Longrightarrow> phone l = JStr p"
  using nth_last_filter [of "\<lambda>l. phone l = JStr p" ls]
  by (auto simp: server_status_def Let_def split: if_splits)

lemma part001_status_phone:
  "part001_status (Some p) ls = (200, Entry l) \<Longrightarrow> Some (phone l) = map_option JStr (normalizePhone p)"
  using nth_last_filter [of "\<lambda>l. phone l = JStr (the (normalizePhone p))" ls]
  by (cases "normalizePhone p") (auto simp: part001_status_def Let_def split: if_splits)

lemma server_logs_phone:
  "p \<noteq> [] \<Longrightarrow> server_logs (Some p) ls = (200, Entries rs) \<Longrightarrow> list_all (\<lambda>l. phone l = JStr p) rs"
  by (auto simp: server_logs_def list_all_iff)

lemma part001_logs_phone:
  "p \<noteq> [] \<Longrightarrow> part001_logs (Some p) ls = (200, Entries rs) \<Longrightarrow>
   list_all (\<lambda>l. Some (phone l) = map_option JStr (normalizePhone p)) rs"
  by (cases "normalizePhone p") (auto simp: part001_logs_def list_all_iff normalizePhone_def split: if_splits)

text \<open>
  Orphans and the queries by phone. Every orphan is stored with the phone
  \<open>unknown\<close>, and no callback changes the phone of a log. A query by phone returns
  only logs whose phone is the phone it filters by. In server.js and part_000 that is
  the query itself, so a phone other than \<open>unknown\<close> returns no orphan (the empty
  phone of \<open>/logs\<close> is the unfiltered listing). In part_001 it is the normalized
  query.
\<close>

lemma orphans_and_phone_queries:
  "(findIndex (\<lambda>l. checkoutId l = CheckoutRequestID cb) ls = None \<longrightarrow>
      phone (last (snd (server_callback ts (Some cb) ls))) = JStr ''unknown''
      \<and> phone (last (snd (server2_callback now ts (Some cb) ls))) = JStr ''unknown''
      \<and> phone (last (snd (part000_callback now ts (Some cb) ls))) = JStr ''unknown''
      \<and> phone (last (snd (part001_callback ts (Some cb) ls))) = JStr ''unknown'')
   \<and> take (length ls) (map phone (snd (server_callback ts body ls))) = map phone ls
   \<and> take (length ls) (map phone (snd (server2_callback now ts body ls))) = map phone ls
   \<and> take (length ls) (map phone (snd (part000_callback now ts body ls))) = map phone ls
   \<and> take (length ls) (map phone (snd (part001_callback ts body ls))) = map phone ls
   \<and> (p \<noteq> ''unknown'' \<and> server_status (Some p) ls = (200, Entry l) \<longrightarrow>
        phone l \<noteq> JStr ''unknown'')
   \<and> (p \<noteq> [] \<and> p \<noteq> ''unknown'' \<and> server_logs (Some p) ls = (200, Entries rs) \<longrightarrow>
        list_all (\<lambda>l. phone l \<noteq> JStr ''unknown'') rs)
   \<and> (normalizePhone p \<noteq> Some ''unknown'' \<and> part001_status (Some p) ls = (200, Entry l) \<longrightarrow>
        phone l \<noteq> JStr ''unknown'')
   \<and> (p \<noteq> [] \<and> normalizePhone p \<noteq> Some ''unknown''
        \<and> part001_logs (Some p) ls = (200, Entries rs) \<longrightarrow>
        list_all (\<lambda>l. phone l \<noteq> JStr ''unknown'') rs)"
proof -
  have o: "findIndex (\<lambda>l. checkoutId l = CheckoutRequestID cb) ls = None \<Longrightarrow>
      phone (last (snd (server_callback ts (Some cb) ls))) = JStr ''unknown''
      \<and> phone (last (snd (server2_callback now ts (Some cb) ls))) = JStr ''unknown''
      \<and> phone (last (snd (part000_callback now ts (Some cb) ls))) = JStr ''unknown''
      \<and> phone (last (snd (part001_callback ts (Some cb) ls))) = JStr ''unknown''"
    by (simp add: server_callback_orphan server2_callback_orphan part000_callback_orphan
        part001_callback_orphan)
  have s: "p \<noteq> ''unknown'' \<Longrightarrow> server_status (Some p) ls = (200, Entry l) \<Longrightarrow>
        phone l \<noteq> JStr ''unknown''"
    using server_status_phone [of p ls l] by simp
  have g: "p \<noteq> [] \<Longrightarrow> p \<noteq> ''unknown'' \<Longrightarrow> server_logs (Some p) ls = (200, Entries rs) \<Longrightarrow>
        list_all (\<lambda>l. phone l \<noteq> JStr ''unknown'') rs"
    using server_logs_phone [of p ls rs] by (auto simp: list_all_iff)
  have s': "normalizePhone p \<noteq> Some ''unknown'' \<Longrightarrow> part001_status (Some p) ls = (200, Entry l) \<Longrightarrow>
        phone l \<noteq> JStr ''unknown''"
    using part001_status_phone [of p ls l] by (cases "normalizePhone p") auto
  have g': "p \<noteq> [] \<Longrightarrow> normalizePhone p \<noteq> Some ''unknown'' \<Longrightarrow>
        part001_logs (Some p) ls = (200, Entries rs) \<Longrightarrow>
        list_all (\<lambda>l. phone l \<noteq> JStr ''unknown'') rs"
    using part001_logs_phone [of p ls rs]
    by (cases "normalizePhone p") (auto simp: list_all_iff)
  from o s g s' g' show ?thesis
    by (simp add: phones_server_callback phones_server2_callback phones_part000_callback
        phones_part001_callback)
qed

text \<open>
  Claim C10: every orphan is stored with the phone \<open>unknown\<close>, so a status or
  listing query for any other phone returns no orphan. The code of part_001 at the
  input where it departs from this: after a callback for an unknown identifier, the
  queries for the phone \<open>+unknown\<close> return the orphan, because \<open>normalizePhone\<close>
  strips the \<open>+\<close> and its last line returns the rest, \<open>unknown\<close>, although
  that is no string of digits. The same queries in server.js, which filter by the
  query itself, find nothing.
\<close>

theorem orphan_returned_for_other_phone:
  "''+unknown'' \<noteq> ''unknown''
   \<and> part001_status (Some ''+unknown'')
        (snd (part001_callback ''20250101120500'' (Some sample_unknown) [sample_pending]))
      = (200, Entry (last (snd (part001_callback ''20250101120500'' (Some sample_unknown)
           [sample_pending]))))
   \<and> part001_logs (Some ''+unknown'')
        (snd (part001_callback ''20250101120500'' (Some sample_unknown) [sample_pending]))
      = (200, Entries [last (snd (part001_callback ''20250101120500'' (Some sample_unknown)
           [sample_pending]))])
   \<and> phone (last (snd (part001_callback ''20250101120500'' (Some sample_unknown) [sample_pending])))
      = JStr ''unknown''
   \<and> details (last (snd (part001_callback ''20250101120500'' (Some sample_unknown)
        [sample_pending]))) = Delivered sample_unknown
   \<and> normalizePhone ''+unknown'' = Some ''unknown''
   \<and> list_all digit ''unknown'' = False
   \<and> server_status (Some ''+unknown'')
        (snd (server_callback ''20250101120500'' (Some sample_unknown) [sample_pending]))
      = (404, Error ''No transactions found'')
   \<and> server_logs (Some ''+unknown'')
        (snd (server_callback ''20250101120500'' (Some sample_unknown) [sample_pending]))
      = (200, Entries [])"
  by (simp add: part001_status_def part001_logs_def part001_callback_def server_status_def
      server_logs_def server_callback_def phones samples reading)

section \<open>Payment initiation\<close>

lemma logs_server_getAccessToken [simp]:
  "logs (after (server_getAccessToken st now later up)) = logs st"
  by (simp add: server_getAccessToken_def split: upstream.splits)

lemma logs_part000_getAccessToken [simp]:
  "logs (after (part000_getAccessToken cfg st now later up)) = logs st"
  by (simp add: part000_getAccessToken_def split: upstream.splits)

lemma logs_part001_getAccessToken [simp]:
  "logs (after (part001_getAccessToken cfg st now later up)) = logs st"
  by (simp add: part001_getAccessToken_def split: upstream.splits)

lemma token_server_logs [simp]:
  "token (server_getAccessToken (st\<lparr>logs := ls0\<rparr>) now later up)
     = token (server_getAccessToken st now later up)"
  by (simp add: server_getAccessToken_def split: upstream.splits)

lemma token_part000_logs [simp]:
  "token (part000_getAccessToken cfg (st\<lparr>logs := ls0\<rparr>) now later up)
     = token (part000_getAccessToken cfg st now later up)"
  by (simp add: part000_getAccessToken_def split: upstream.splits)

lemma token_part001_logs [simp]:
  "token (part001_getAccessToken cfg (st\<lparr>logs := ls0\<rparr>) now later up)
     = token (part001_getAccessToken cfg st now later up)"
  by (auto simp: part001_getAccessToken_def split: upstream.splits)

lemma pushed_keeps_older:
  assumes "findIndex (\<lambda>l. checkoutId l = c) ls = Some i" and "pushed c ls ls'"
  shows "findIndex (\<lambda>l. checkoutId l = c) ls' = Some i \<and> i < length ls
         \<and> checkoutId (ls' ! length ls) = c"
proof -
  from assms(2) have eq: "ls' = ls @ [last ls']" and c: "checkoutId (last ls') = c"
    by (simp_all add: pushed_def)
  have "findIndex (\<lambda>l. checkoutId l = c) (ls @ [last ls']) = Some i"
    using assms(1) by (rule findIndex_append)
  moreover have "i < length ls" using findIndex_Some [OF assms(1)] by simp
  moreover have "(ls @ [last ls']) ! length ls = last ls'" by simp
  ultimately show ?thesis using eq c by metis
qed

text \<open>
  Claim C4, as the code has it. No handler looks for the identifier before it pushes.
  Once the request is valid and a token is at hand, an initiation that the gateway
  accepts is answered with 200 and appends exactly one pending log under the
  identifier the gateway returned (\<open>null\<close> in part_000 when it returned none),
  whatever \<open>logs\<close> holds: the reply of a handler is the same for every content of
  \<open>logs\<close>, so nothing fails for a duplicate. When a log with that identifier is
  already there, it stays the one that the lookup by identifier finds, and the new log
  stands behind it with the same identifier.
\<close>

theorem initiation_pushes:
  "(token (server_getAccessToken st now later up) = Inr tok \<and> stk = Returns d \<longrightarrow>
      fst (server_pay st now later ts req up stk) = (200, Raw d)
      \<and> pushed (data_CheckoutRequestID d) (logs st)
           (logs (snd (server_pay st now later ts req up stk))))
   \<and> (truthy (body_phone req) \<and> token (server_getAccessToken st now later up) = Inr tok
        \<and> truthy tok \<and> stk = Returns d \<longrightarrow>
      fst (server2_stk st now later ts req up stk) = (200, Started (data_CheckoutRequestID d) d)
      \<and> pushed (data_CheckoutRequestID d) (logs st)
           (logs (snd (server2_stk st now later ts req up stk))))
   \<and> (truthy (body_phone req) \<and> token (part000_getAccessToken cfg st now later up) = Inr tok
        \<and> truthy tok \<and> stk = Returns d \<longrightarrow>
      fst (part000_stk cfg st now later ts req up stk)
        = (200, Started (js_or (data_CheckoutRequestID d) JNull) d)
      \<and> pushed (js_or (data_CheckoutRequestID d) JNull) (logs st)
           (logs (snd (part000_stk cfg st now later ts req up stk))))
   \<and> (requested rq = Some a \<and> 0 < a \<and> a \<le> MAX_AMOUNT
        \<and> \<not> rejected (normalizePhone (case rawPhone rq of None \<Rightarrow> [] | Some r \<Rightarrow> r))
        \<and> token (part001_getAccessToken cfg st now later up) = Inr tok \<and> stk = Returns d \<longrightarrow>
      fst (part001_pay cfg st now later ts rq up stk)
        = (200, Initiated (data_CheckoutRequestID d) d)
      \<and> pushed (data_CheckoutRequestID d) (logs st)
           (logs (snd (part001_pay cfg st now later ts rq up stk))))
   \<and> fst (server_pay (st\<lparr>logs := ls0\<rparr>) now later ts req up stk)
       = fst (server_pay st now later ts req up stk)
   \<and> fst (server2_stk (st\<lparr>logs := ls0\<rparr>) now later ts req up stk)
       = fst (server2_stk st now later ts req up stk)
   \<and> fst (part000_stk cfg (st\<lparr>logs := ls0\<rparr>) now later ts req up stk)
       = fst (part000_stk cfg st now later ts req up stk)
   \<and> fst (part001_pay cfg (st\<lparr>logs := ls0\<rparr>) now later ts rq up stk)
       = fst (part001_pay cfg st now later ts rq up stk)
   \<and> (fst (fst (server_pay st now later ts req up stk)) = 200 \<and> stk = Returns d \<longrightarrow>
      pushed (data_CheckoutRequestID d) (logs st) (logs (snd (server_pay st now later ts req up stk))))
   \<and> (fst (fst (server2_stk st now later ts req up stk)) = 200 \<and> stk = Returns d \<longrightarrow>
      pushed (data_CheckoutRequestID d) (logs st) (logs (snd (server2_stk st now later ts req up stk))))
   \<and> (fst (fst (part000_stk cfg st now later ts req up stk)) = 200 \<and> stk = Returns d \<longrightarrow>
      pushed (js_or (data_CheckoutRequestID d) JNull) (logs st)
        (logs (snd (part000_stk cfg st now later ts req up stk))))
   \<and> (fst (fst (part001_pay cfg st now later ts rq up stk)) = 200 \<and> stk = Returns d \<longrightarrow>
      pushed (data_CheckoutRequestID d) (logs st)
        (logs (snd (part001_pay cfg st now later ts rq up stk))))
   \<and> (findIndex (\<lambda>l. checkoutId l = c) ls = Some i \<and> pushed c ls ls' \<longrightarrow>
        findIndex (\<lambda>l. checkoutId l = c) ls' = Some i \<and> i < length ls
        \<and> checkoutId (ls' ! length ls) = c)"
proof -
  have a1: "token (server_getAccessToken st now later up) = Inr tok \<Longrightarrow> stk = Returns d \<Longrightarrow>
      fst (server_pay st now later ts req up stk) = (200, Raw d)
      \<and> pushed (data_CheckoutRequestID d) (logs st)
           (logs (snd (server_pay st now later ts req up stk)))"
    by (simp add: server_pay_def Let_def pushed_def)
  have a2: "truthy (body_phone req) \<Longrightarrow> token (server_getAccessToken st now later up) = Inr tok
        \<Longrightarrow> truthy tok \<Longrightarrow> stk = Returns d \<Longrightarrow>
      fst (server2_stk st now later ts req up stk) = (200, Started (data_CheckoutRequestID d) d)
      \<and> pushed (data_CheckoutRequestID d) (logs st)
           (logs (snd (server2_stk st now later ts req up stk)))"
    by (simp add: server2_stk_def Let_def pushed_def)
  have a3: "truthy (body_phone req) \<Longrightarrow> token (part000_getAccessToken cfg st now later up) = Inr tok
        \<Longrightarrow> truthy tok \<Longrightarrow> stk = Returns d \<Longrightarrow>
      fst (part000_stk cfg st now later ts req up stk)
        = (200, Started (js_or (data_CheckoutRequestID d) JNull) d)
      \<and> pushed (js_or (data_CheckoutRequestID d) JNull) (logs st)
           (logs (snd (part000_stk cfg st now later ts req up stk)))"
    by (simp add: part000_stk_def Let_def pushed_def)
  have a4: "requested rq = Some a \<Longrightarrow> 0 < a \<Longrightarrow> a \<le> MAX_AMOUNT
        \<Longrightarrow> \<not> rejected (normalizePhone (case rawPhone rq of None \<Rightarrow> [] | Some r \<Rightarrow> r))
        \<Longrightarrow> token (part001_getAccessToken cfg st now later up) = Inr tok \<Longrightarrow> stk = Returns d \<Longrightarrow>
      fst (part001_pay cfg st now later ts rq up stk)
        = (200, Initiated (data_CheckoutRequestID d) d)
      \<and> pushed (data_CheckoutRequestID d) (logs st)
           (logs (snd (part001_pay cfg st now later ts rq up stk)))"
    by (simp add: part001_pay_def Let_def pushed_def)
  have b1: "fst (server_pay (st\<lparr>logs := ls0\<rparr>) now later ts req up stk)
       = fst (server_pay st now later ts req up stk)"
    by (simp add: server_pay_def Let_def split: sum.splits upstream.splits)
  have b2: "fst (server2_stk (st\<lparr>logs := ls0\<rparr>) now later ts req up stk)
       = fst (server2_stk st now later ts req up stk)"
    by (simp add: server2_stk_def Let_def split: sum.splits upstream.splits)
  have b3: "fst (part000_stk cfg (st\<lparr>logs := ls0\<rparr>) now later ts req up stk)
       = fst (part000_stk cfg st now later ts req up stk)"
    by (simp add: part000_stk_def Let_def split: sum.splits upstream.splits)
  have b4: "fst (part001_pay cfg (st\<lparr>logs := ls0\<rparr>) now later ts rq up stk)
       = fst (part001_pay cfg st now later ts rq up stk)"
    by (simp add: part001_pay_def Let_def split: sum.splits upstream.splits option.splits)
  have a: "fst (fst (server_pay st now later ts req up stk)) = 200 \<Longrightarrow> stk = Returns d \<Longrightarrow>
      pushed (data_CheckoutRequestID d) (logs st) (logs (snd (server_pay st now later ts req up stk)))"
    by (auto simp: server_pay_def Let_def pushed_def split: sum.splits)
  have b: "fst (fst (server2_stk st now later ts req up stk)) = 200 \<Longrightarrow> stk = Returns d \<Longrightarrow>
      pushed (data_CheckoutRequestID d) (logs st) (logs (snd (server2_stk st now later ts req up stk)))"
    by (auto simp: server2_stk_def Let_def pushed_def split: sum.splits if_splits)
  have c: "fst (fst (part000_stk cfg st now later ts req up stk)) = 200 \<Longrightarrow> stk = Returns d \<Longrightarrow>
      pushed (js_or (data_CheckoutRequestID d) JNull) (logs st)
        (logs (snd (part000_stk cfg st now later ts req up stk)))"
    by (auto simp: part000_stk_def Let_def pushed_def split: sum.splits if_splits)
  have e: "fst (fst (part001_pay cfg st now later ts rq up stk)) = 200 \<Longrightarrow> stk = Returns d \<Longrightarrow>
      pushed (data_CheckoutRequestID d) (logs st)
        (logs (snd (part001_pay cfg st now later ts rq up stk)))"
    by (auto simp: part001_pay_def Let_def pushed_def failed_status_def
        split: sum.splits if_splits option.splits)
  have k: "findIndex (\<lambda>l. checkoutId l = c) ls = Some i \<and> pushed c ls ls' \<longrightarrow>
        findIndex (\<lambda>l. checkoutId l = c) ls' = Some i \<and> i < length ls
        \<and> checkoutId (ls' ! length ls) = c"
    using pushed_keeps_older [of c ls i ls'] by blast
  have A: "(token (server_getAccessToken st now later up) = Inr tok \<and> stk = Returns d \<longrightarrow>
      fst (server_pay st now later ts req up stk) = (200, Raw d)
      \<and> pushed (data_CheckoutRequestID d) (logs st)
           (logs (snd (server_pay st now later ts req up stk))))
   \<and> (truthy (body_phone req) \<and> token (server_getAccessToken st now later up) = Inr tok
        \<and> truthy tok \<and> stk = Returns d \<longrightarrow>
      fst (server2_stk st now later ts req up stk) = (200, Started (data_CheckoutRequestID d) d)
      \<and> pushed (data_CheckoutRequestID d) (logs st)
           (logs (snd (server2_stk st now later ts req up stk))))
   \<and> (truthy (body_phone req) \<and> token (part000_getAccessToken cfg st now later up) = Inr tok
        \<and> truthy tok \<and> stk = Returns d \<longrightarrow>
      fst (part000_stk cfg st now later ts req up stk)
        = (200, Started (js_or (data_CheckoutRequestID d) JNull) d)
      \<and> pushed (js_or (data_CheckoutRequestID d) JNull) (logs st)
           (logs (snd (part000_stk cfg st now later ts req up stk))))
   \<and> (requested rq = Some a \<and> 0 < a \<and> a \<le> MAX_AMOUNT
        \<and> \<not> rejected (normalizePhone (case rawPhone rq of None \<Rightarrow> [] | Some r \<Rightarrow> r))
        \<and> token (part001_getAccessToken cfg st now later up) = Inr tok \<and> stk = Returns d \<longrightarrow>
      fst (part001_pay cfg st now later ts rq up stk)
        = (200, Initiated (data_CheckoutRequestID d) d)
      \<and> pushed (data_CheckoutRequestID d) (logs st)
           (logs (snd (part001_pay cfg st now later ts rq up stk))))"
    using a1 a2 a3 a4 by blast
  have C: "(fst (fst (server_pay st now later ts req up stk)) = 200 \<and> stk = Returns d \<longrightarrow>
      pushed (data_CheckoutRequestID d) (logs st) (logs (snd (server_pay st now later ts req up stk))))
   \<and> (fst (fst (server2_stk st now later ts req up stk)) = 200 \<and> stk = Returns d \<longrightarrow>
      pushed (data_CheckoutRequestID d) (logs st) (logs (snd (server2_stk st now later ts req up stk))))
   \<and> (fst (fst (part000_stk cfg st now later ts req up stk)) = 200 \<and> stk = Returns d \<longrightarrow>
      pushed (js_or (data_CheckoutRequestID d) JNull) (logs st)
        (logs (snd (part000_stk cfg st now later ts req up stk))))
   \<and> (fst (fst (part001_pay cfg st now later ts rq up stk)) = 200 \<and> stk = Returns d \<longrightarrow>
      pushed (data_CheckoutRequestID d) (logs st)
        (logs (snd (part001_pay cfg st now later ts rq up stk))))"
    using a b c e by blast
  from A b1 b2 b3 b4 C k show ?thesis by (intro conjI) (elim conjE, assumption)+
qed

theorem initiation_pushes_witness:
  "token (server_getAccessToken initial 1000 1200 (Returns sample_grant)) = Inr (JStr ''tok-1'')
   \<and> fst (server_pay initial 1000 1200 ''20250101120000'' sample_body
        (Returns sample_grant) (Returns sample_accept)) = (200, Raw sample_accept)
   \<and> pushed (JStr ''ws_CO_191220191020363925'') []
        (logs (snd (server_pay initial 1000 1200 ''20250101120000'' sample_body
           (Returns sample_grant) (Returns sample_accept))))
   \<and> truthy (body_phone sample_body)
   \<and> token (part000_getAccessToken sample_env
        (initial\<lparr>logs := snd (part000_callback 900 ''20250101115959'' (Some sample_paid) [])\<rparr>)
        1000 1200 (Returns sample_grant)) = Inr (JStr ''tok-1'')
   \<and> truthy (JStr ''tok-1'')
   \<and> fst (part000_stk sample_env
        (initial\<lparr>logs := snd (part000_callback 900 ''20250101115959'' (Some sample_paid) [])\<rparr>)
        1000 1200 ''20250101120000'' sample_body (Returns sample_grant) (Returns sample_accept))
       = (200, Started (JStr ''ws_CO_191220191020363925'') sample_accept)
   \<and> findIndex (\<lambda>l. checkoutId l = JStr ''ws_CO_191220191020363925'')
        (snd (part000_callback 900 ''20250101115959'' (Some sample_paid) [])) = Some 0
   \<and> pushed (JStr ''ws_CO_191220191020363925'')
        (snd (part000_callback 900 ''20250101115959'' (Some sample_paid) []))
        (logs (snd (part000_stk sample_env
           (initial\<lparr>logs := snd (part000_callback 900 ''20250101115959'' (Some sample_paid) [])\<rparr>)
           1000 1200 ''20250101120000'' sample_body (Returns sample_grant) (Returns sample_accept))))
   \<and> findIndex (\<lambda>l. checkoutId l = JStr ''ws_CO_191220191020363925'')
        (logs (snd (part000_stk sample_env
           (initial\<lparr>logs := snd (part000_callback 900 ''20250101115959'' (Some sample_paid) [])\<rparr>)
           1000 1200 ''20250101120000'' sample_body (Returns sample_grant) (Returns sample_accept))))
       = Some 0"
proof -
  let ?o = "snd (part000_callback 900 ''20250101115959'' (Some sample_paid) [])"
  let ?s = "initial\<lparr>logs := ?o\<rparr>"
  let ?t = "part000_stk sample_env ?s 1000 1200 ''20250101120000'' sample_body
              (Returns sample_grant) (Returns sample_accept)"
  have p: "token (server_getAccessToken initial 1000 1200 (Returns sample_grant))
             = Inr (JStr ''tok-1'')"
    by (simp add: server_getAccessToken_def samples)
  have q: "token (part000_getAccessToken sample_env ?s 1000 1200 (Returns sample_grant))
             = Inr (JStr ''tok-1'')"
    by (simp add: part000_getAccessToken_def samples)
  have ph: "truthy (body_phone sample_body)" and tk: "truthy (JStr ''tok-1'')"
    by (simp_all add: samples)
  have f: "findIndex (\<lambda>l. checkoutId l = JStr ''ws_CO_191220191020363925'') ?o = Some 0"
    by (simp add: part000_callback_def samples reading)
  have i: "data_CheckoutRequestID sample_accept = JStr ''ws_CO_191220191020363925''"
    and l: "logs initial = []" and l': "logs ?s = ?o"
    by (simp_all add: samples)
  have j: "js_or (data_CheckoutRequestID sample_accept) JNull = JStr ''ws_CO_191220191020363925''"
    by (simp add: samples js_or_def)
  from p
    initiation_pushes [where st = initial and now = 1000 and later = 1200
      and ts = "''20250101120000''" and req = sample_body and up = "Returns sample_grant"
      and stk = "Returns sample_accept" and d = sample_accept and tok = "JStr ''tok-1''"]
  have "fst (server_pay initial 1000 1200 ''20250101120000'' sample_body
        (Returns sample_grant) (Returns sample_accept)) = (200, Raw sample_accept)
     \<and> pushed (data_CheckoutRequestID sample_accept) (logs initial)
        (logs (snd (server_pay initial 1000 1200 ''20250101120000'' sample_body
           (Returns sample_grant) (Returns sample_accept))))"
    by blast
  with i l have w1: "fst (server_pay initial 1000 1200 ''20250101120000'' sample_body
        (Returns sample_grant) (Returns sample_accept)) = (200, Raw sample_accept)
     \<and> pushed (JStr ''ws_CO_191220191020363925'') []
        (logs (snd (server_pay initial 1000 1200 ''20250101120000'' sample_body
           (Returns sample_grant) (Returns sample_accept))))"
    by simp
  from q ph tk
    initiation_pushes [where st = ?s and cfg = sample_env and now = 1000 and later = 1200
      and ts = "''20250101120000''" and req = sample_body and up = "Returns sample_grant"
      and stk = "Returns sample_accept" and d = sample_accept and tok = "JStr ''tok-1''"]
  have "fst ?t = (200, Started (js_or (data_CheckoutRequestID sample_accept) JNull) sample_accept)
     \<and> pushed (js_or (data_CheckoutRequestID sample_accept) JNull) (logs ?s) (logs (snd ?t))"
    by blast
  with j l' have w2: "fst ?t = (200, Started (JStr ''ws_CO_191220191020363925'') sample_accept)
     \<and> pushed (JStr ''ws_CO_191220191020363925'') ?o (logs (snd ?t))"
    by simp
  from f w2
    initiation_pushes [where c = "JStr ''ws_CO_191220191020363925''" and ls = ?o and i = 0
      and ls' = "logs (snd ?t)"]
  have w3: "findIndex (\<lambda>l. checkoutId l = JStr ''ws_CO_191220191020363925'') (logs (snd ?t)) = Some 0"
    by blast
  from p q ph tk f w1 w2 w3 show ?thesis by blast
qed

text \<open>
  Two accepted initiations with the same gateway identifier give two logs with that
  identifier, and so does an initiation whose callback arrived first.
\<close>

theorem duplicate_identifier_accepted:
  "fst (fst (server_pay
        (snd (server_pay initial 1000 1200 ''20250101120000'' sample_body
               (Returns sample_grant) (Returns sample_accept)))
        2000 2200 ''20250101120001'' sample_body (Returns sample_grant) (Returns sample_accept)))
     = 200
   \<and> map checkoutId (logs (snd (server_pay
        (snd (server_pay initial 1000 1200 ''20250101120000'' sample_body
               (Returns sample_grant) (Returns sample_accept)))
        2000 2200 ''20250101120001'' sample_body (Returns sample_grant) (Returns sample_accept))))
     = [JStr ''ws_CO_191220191020363925'', JStr ''ws_CO_191220191020363925'']
   \<and> fst (fst (part000_stk sample_env
        (initial\<lparr>logs := snd (part000_callback 900 ''20250101115959'' (Some sample_paid) [])\<rparr>)
        1000 1200 ''20250101120000'' sample_body (Returns sample_grant) (Returns sample_accept)))
     = 200
   \<and> map checkoutId (logs (snd (part000_stk sample_env
        (initial\<lparr>logs := snd (part000_callback 900 ''20250101115959'' (Some sample_paid) [])\<rparr>)
        1000 1200 ''20250101120000'' sample_body (Returns sample_grant) (Returns sample_accept))))
     = [JStr ''ws_CO_191220191020363925'', JStr ''ws_CO_191220191020363925'']"
  by (simp add: server_pay_def part000_stk_def server_getAccessToken_def
      part000_getAccessToken_def part000_callback_def samples reading)

text \<open>
  Claim C5. When the gateway submission call throws (a network error, a timeout, an
  answer that is not a success), whatever the body, the clock and the token cache,
  every payment handler leaves \<open>logs\<close> as it was, so no pending record is created,
  and the reply it sends is an error body.
\<close>

theorem failed_submission_leaves_no_trace:
  "logs (snd (server_pay st now later ts req up (Throws e))) = logs st
   \<and> is_error (snd (fst (server_pay st now later ts req up (Throws e))))
   \<and> logs (snd (server2_stk st now later ts req up (Throws e))) = logs st
   \<and> is_error (snd (fst (server2_stk st now later ts req up (Throws e))))
   \<and> logs (snd (part000_stk cfg st now later ts req up (Throws e))) = logs st
   \<and> is_error (snd (fst (part000_stk cfg st now later ts req up (Throws e))))
   \<and> logs (snd (part001_pay cfg st now later ts rq up (Throws e))) = logs st
   \<and> is_error (snd (fst (part001_pay cfg st now later ts rq up (Throws e))))"
proof -
  have a: "logs (snd (server_pay st now later ts req up (Throws e))) = logs st
     \<and> is_error (snd (fst (server_pay st now later ts req up (Throws e))))"
    by (simp add: server_pay_def Let_def split: sum.splits)
  have b: "logs (snd (server2_stk st now later ts req up (Throws e))) = logs st
     \<and> is_error (snd (fst (server2_stk st now later ts req up (Throws e))))"
    by (simp add: server2_stk_def Let_def split: sum.splits)
  have c: "logs (snd (part000_stk cfg st now later ts req up (Throws e))) = logs st
     \<and> is_error (snd (fst (part000_stk cfg st now later ts req up (Throws e))))"
    by (simp add: part000_stk_def Let_def split: sum.splits)
  have d: "logs (snd (part001_pay cfg st now later ts rq up (Throws e))) = logs st
     \<and> is_error (snd (fst (part001_pay cfg st now later ts rq up (Throws e))))"
    by (simp add: part001_pay_def Let_def split: sum.splits option.splits)
  from a b c d show ?thesis by simp
qed

text \<open>
  Claim C7. In the bounded mode (\<open>/pay\<close> of part_001, ceiling \<open>MAX_AMOUNT\<close>) every
  requested amount above the ceiling is refused with the reply
  "Amount exceeds maximum allowed", the state unchanged; every amount \<open>a\<close> with
  \<open>0 < a \<le> MAX_AMOUNT\<close> gets past the amount validation (the reply is none of its three
  refusals), and with an accepted phone, a token and an accepting gateway the handler
  answers 200 and logs the amount.
\<close>

theorem amount_ceiling:
  "(MAX_AMOUNT < a \<longrightarrow>
      part001_pay cfg st now later ts \<lparr>rawPhone = r, requested = Some a\<rparr> up stk
        = ((400, Error ''Amount exceeds maximum allowed (KES 30)''), st))
   \<and> (0 < a \<and> a \<le> MAX_AMOUNT \<longrightarrow>
        fst (part001_pay cfg st now later ts \<lparr>rawPhone = r, requested = Some a\<rparr> up stk)
          \<notin> {(400, Error ''Amount is required''), (400, Error ''Invalid amount''),
              (400, Error ''Amount exceeds maximum allowed (KES 30)'')})
   \<and> (0 < a \<and> a \<le> MAX_AMOUNT \<and> \<not> rejected (normalizePhone (case r of None \<Rightarrow> [] | Some s \<Rightarrow> s))
        \<and> token (part001_getAccessToken cfg st now later up) = Inr tok \<longrightarrow>
        fst (part001_pay cfg st now later ts \<lparr>rawPhone = r, requested = Some a\<rparr> up (Returns d))
          = (200, Initiated (data_CheckoutRequestID d) d)
        \<and> amount (last (logs (snd (part001_pay cfg st now later ts
              \<lparr>rawPhone = r, requested = Some a\<rparr> up (Returns d))))) = JNum a)"
proof -
  have over: "MAX_AMOUNT < a \<Longrightarrow>
      part001_pay cfg st now later ts \<lparr>rawPhone = r, requested = Some a\<rparr> up stk
        = ((400, Error ''Amount exceeds maximum allowed (KES 30)''), st)"
    by (simp add: part001_pay_def MAX_AMOUNT_def)
  have within: "0 < a \<Longrightarrow> a \<le> MAX_AMOUNT \<Longrightarrow>
        fst (part001_pay cfg st now later ts \<lparr>rawPhone = r, requested = Some a\<rparr> up stk)
          \<notin> {(400, Error ''Amount is required''), (400, Error ''Invalid amount''),
              (400, Error ''Amount exceeds maximum allowed (KES 30)'')}"
    by (simp add: part001_pay_def Let_def failed_status_def split: sum.splits upstream.splits option.splits)
  have through: "0 < a \<Longrightarrow> a \<le> MAX_AMOUNT \<Longrightarrow>
        \<not> rejected (normalizePhone (case r of None \<Rightarrow> [] | Some s \<Rightarrow> s)) \<Longrightarrow>
        token (part001_getAccessToken cfg st now later up) = Inr tok \<Longrightarrow>
        fst (part001_pay cfg st now later ts \<lparr>rawPhone = r, requested = Some a\<rparr> up (Returns d))
          = (200, Initiated (data_CheckoutRequestID d) d)
        \<and> amount (last (logs (snd (part001_pay cfg st now later ts
              \<lparr>rawPhone = r, requested = Some a\<rparr> up (Returns d))))) = JNum a"
    by (simp add: part001_pay_def Let_def)
  from over within through show ?thesis by blast
qed

theorem amount_ceiling_witness:
  "MAX_AMOUNT < 31
   \<and> part001_pay sample_env initial 1000 1200 ''20250101120000''
        \<lparr>rawPhone = Some ''0712345678'', requested = Some 31\<rparr>
        (Returns sample_grant) (Returns sample_accept)
       = ((400, Error ''Amount exceeds maximum allowed (KES 30)''), initial)
   \<and> (0::rat) < 30 \<and> 30 \<le> MAX_AMOUNT
   \<and> \<not> rejected (normalizePhone ''0712345678'')
   \<and> token (part001_getAccessToken sample_env initial 1000 1200 (Returns sample_grant))
       = Inr (JStr ''tok-1'')
   \<and> fst (part001_pay sample_env initial 1000 1200 ''20250101120000''
        \<lparr>rawPhone = Some ''0712345678'', requested = Some 30\<rparr>
        (Returns sample_grant) (Returns sample_accept))
       = (200, Initiated (JStr ''ws_CO_191220191020363925'') sample_accept)
   \<and> amount (last (logs (snd (part001_pay sample_env initial 1000 1200 ''20250101120000''
        \<lparr>rawPhone = Some ''0712345678'', requested = Some 30\<rparr>
        (Returns sample_grant) (Returns sample_accept))))) = JNum 30"
proof -
  have big: "MAX_AMOUNT < 31" and pos: "(0::rat) < 30" and small: "30 \<le> MAX_AMOUNT"
    by (simp_all add: MAX_AMOUNT_def)
  have ok: "\<not> rejected (normalizePhone ''0712345678'')"
    by (simp add: normalizePhone_national)
  have tok: "token (part001_getAccessToken sample_env initial 1000 1200 (Returns sample_grant))
       = Inr (JStr ''tok-1'')"
    by (simp add: part001_getAccessToken_def initial_def sample_env_def sample_grant_def)
  have cid: "data_CheckoutRequestID sample_accept = JStr ''ws_CO_191220191020363925''"
    by (simp add: sample_accept_def)
  from big pos small ok tok cid
    amount_ceiling [of 31 sample_env initial 1000 1200 "''20250101120000''"
      "Some ''0712345678''" "Returns sample_grant" "Returns sample_accept"]
    amount_ceiling [of 30 sample_env initial 1000 1200 "''20250101120000''"
      "Some ''0712345678''" "Returns sample_grant" "Returns sample_accept"
      "JStr ''tok-1''" sample_accept]
  show ?thesis by simp
qed

section \<open>The phone normalizer\<close>

lemma test8_append:
  "length ds = 8 \<Longrightarrow> list_all digit ds \<Longrightarrow> test8 P (P @ ds)"
  by (simp add: test8_def)

lemma test8_head:
  "test8 (a # P) (b # s) \<Longrightarrow> a = b"
  by (simp add: test8_def)

text \<open>
  Claim C6, as the code has it. After whitespace, \<open>+\<close> and \<open>-\<close> are stripped, the
  national form \<open>07\<close> + 8 digits is returned as it is, the bare form \<open>7\<close> + 8
  digits gets a leading \<open>0\<close> (so both give the national form of the subscriber), and
  the international form \<open>2547\<close> + 8 digits is returned as it is: there are two
  canonical forms, not one. An input that is empty once stripped is rejected by the
  callers; a string of digits of no accepted shape is returned stripped, not rejected.
\<close>

theorem normalizePhone_shapes:
  "(length ds = 8 \<and> list_all digit ds \<longrightarrow>
      (cleaned raw = ''07'' @ ds \<longrightarrow> normalizePhone raw = Some (''07'' @ ds))
      \<and> (cleaned raw = ''7'' @ ds \<longrightarrow> normalizePhone raw = Some (''07'' @ ds))
      \<and> (cleaned raw = ''2547'' @ ds \<longrightarrow> normalizePhone raw = Some (''2547'' @ ds)))
   \<and> (cleaned raw = [] \<longrightarrow> rejected (normalizePhone raw))
   \<and> (cleaned raw \<noteq> [] \<and> list_all digit (cleaned raw) \<and> \<not> test8 ''7'' (cleaned raw) \<longrightarrow>
        normalizePhone raw = Some (cleaned raw))"
proof -
  have ne: "\<And>s. cleaned raw = s \<Longrightarrow> s \<noteq> [] \<Longrightarrow> raw \<noteq> []"
    by (auto simp: cleaned_def)
  have nat: "length ds = 8 \<Longrightarrow> list_all digit ds \<Longrightarrow> cleaned raw = ''07'' @ ds \<Longrightarrow>
      normalizePhone raw = Some (''07'' @ ds)"
    using ne [of "''07'' @ ds"] test8_append [of ds "''07''"]
    by (simp add: normalizePhone_def)
  have bare: "length ds = 8 \<Longrightarrow> list_all digit ds \<Longrightarrow> cleaned raw = ''7'' @ ds \<Longrightarrow>
      normalizePhone raw = Some (''07'' @ ds)"
    using ne [of "''7'' @ ds"] test8_append [of ds "''7''"] test8_head [of "CHR ''0''" "''7''" "CHR ''7''" ds]
    by (auto simp: normalizePhone_def)
  have intl: "length ds = 8 \<Longrightarrow> list_all digit ds \<Longrightarrow> cleaned raw = ''2547'' @ ds \<Longrightarrow>
      normalizePhone raw = Some (''2547'' @ ds)"
    using ne [of "''2547'' @ ds"]
    by (simp add: normalizePhone_def test8_def)
  have empty: "cleaned raw = [] \<Longrightarrow> rejected (normalizePhone raw)"
    by (simp add: normalizePhone_def test8_def)
  have fallback: "cleaned raw \<noteq> [] \<Longrightarrow> list_all digit (cleaned raw) \<Longrightarrow>
      \<not> test8 ''7'' (cleaned raw) \<Longrightarrow> normalizePhone raw = Some (cleaned raw)"
    using ne [of "cleaned raw"] by (simp add: normalizePhone_def)
  from nat bare intl empty fallback show ?thesis by blast
qed

theorem normalizePhone_shapes_witness:
  "length ''12345678'' = 8 \<and> list_all digit ''12345678''
   \<and> cleaned ''0712 345 678'' = ''07'' @ ''12345678''
   \<and> normalizePhone ''0712 345 678'' = Some ''0712345678''
   \<and> cleaned ''712345678'' = ''7'' @ ''12345678''
   \<and> normalizePhone ''712345678'' = Some ''0712345678''
   \<and> cleaned ''+254-712-345678'' = ''2547'' @ ''12345678''
   \<and> normalizePhone ''+254-712-345678'' = Some ''254712345678''
   \<and> cleaned '' - '' = []
   \<and> rejected (normalizePhone '' - '')
   \<and> cleaned ''12345'' \<noteq> [] \<and> list_all digit (cleaned ''12345'') \<and> \<not> test8 ''7'' (cleaned ''12345'')
   \<and> normalizePhone ''12345'' = Some ''12345''"
proof -
  have d: "length ''12345678'' = 8 \<and> list_all digit ''12345678''"
    by (simp add: digit_def)
  have c1: "cleaned ''0712 345 678'' = ''07'' @ ''12345678''"
    and c2: "cleaned ''712345678'' = ''7'' @ ''12345678''"
    and c3: "cleaned ''+254-712-345678'' = ''2547'' @ ''12345678''"
    and c4: "cleaned '' - '' = []"
    and c5: "cleaned ''12345'' = ''12345''"
    by (simp_all add: cleaned_def whitespace_def)
  have f: "cleaned ''12345'' \<noteq> [] \<and> list_all digit (cleaned ''12345'') \<and> \<not> test8 ''7'' (cleaned ''12345'')"
    by (simp add: c5 digit_def test8_def)
  from d c1 c2 c3 c4 c5 f
    normalizePhone_shapes [of "''12345678''" "''0712 345 678''"]
    normalizePhone_shapes [of "''12345678''" "''712345678''"]
    normalizePhone_shapes [of "''12345678''" "''+254-712-345678''"]
    normalizePhone_shapes [of "''12345678''" "'' - ''"]
    normalizePhone_shapes [of "''12345678''" "''12345''"]
  show ?thesis by simp
qed

text \<open>
  The national and the international form of one subscriber are normalized to two
  different strings, and a digit string of no accepted shape is accepted.
\<close>

theorem normalizePhone_two_forms:
  "normalizePhone ''0712345678'' = Some ''0712345678''
   \<and> normalizePhone ''254712345678'' = Some ''254712345678''
   \<and> normalizePhone ''12345'' = Some ''12345''
   \<and> \<not> rejected (normalizePhone ''12345'')"
  by (simp add: phones)

section \<open>The token cache\<close>

text \<open>
  Claim C8, as the code has it. After a call that made the credential exchange and
  got a token, the stored expiry is the time of the answer plus a constant: one hour
  in server.js, 3500 seconds in part_000, five seconds short of the hour in part_001;
  the validity the gateway states is not read. A call before that instant returns the
  same token and makes no exchange, so two calls in the window make one exchange; a
  call at or after it makes exactly one exchange.
\<close>

theorem token_cache:
  "(exchanges (server_getAccessToken st t0 t1 (Returns d)) = 1 \<and> truthy (access_token d) \<longrightarrow>
      tokenExpiryTime (after (server_getAccessToken st t0 t1 (Returns d))) = Some (t1 + 3600000)
      \<and> (t2 < t1 + 3600000 \<longrightarrow>
           server_getAccessToken (after (server_getAccessToken st t0 t1 (Returns d))) t2 t3 up
             = \<lparr>token = Inr (access_token d),
                after = after (server_getAccessToken st t0 t1 (Returns d)), exchanges = 0\<rparr>)
      \<and> (t1 + 3600000 \<le> t2 \<longrightarrow>
           exchanges (server_getAccessToken
             (after (server_getAccessToken st t0 t1 (Returns d))) t2 t3 up) = 1))
   \<and> (exchanges (part000_getAccessToken cfg st t0 t1 (Returns d)) = 1 \<and> truthy (access_token d) \<longrightarrow>
      tokenExpiryTime (after (part000_getAccessToken cfg st t0 t1 (Returns d))) = Some (t1 + 3500000)
      \<and> (t2 < t1 + 3500000 \<longrightarrow>
           part000_getAccessToken cfg (after (part000_getAccessToken cfg st t0 t1 (Returns d))) t2 t3 up
             = \<lparr>token = Inr (access_token d),
                after = after (part000_getAccessToken cfg st t0 t1 (Returns d)), exchanges = 0\<rparr>)
      \<and> (t1 + 3500000 \<le> t2 \<longrightarrow>
           exchanges (part000_getAccessToken cfg
             (after (part000_getAccessToken cfg st t0 t1 (Returns d))) t2 t3 up) = 1))
   \<and> (exchanges (part001_getAccessToken cfg st t0 t1 (Returns d)) = 1 \<and> truthy (access_token d) \<longrightarrow>
      tokenExpiryTime (after (part001_getAccessToken cfg st t0 t1 (Returns d))) = Some (t1 + 3595000)
      \<and> (0 \<le> t2 \<and> t2 < t1 + 3595000 \<longrightarrow>
           part001_getAccessToken cfg (after (part001_getAccessToken cfg st t0 t1 (Returns d))) t2 t3 up
             = \<lparr>token = Inr (access_token d),
                after = after (part001_getAccessToken cfg st t0 t1 (Returns d)), exchanges = 0\<rparr>)
      \<and> (t1 + 3595000 \<le> t2 \<longrightarrow>
           exchanges (part001_getAccessToken cfg
             (after (part001_getAccessToken cfg st t0 t1 (Returns d))) t2 t3 up) = 1))"
proof -
  have a: "exchanges (server_getAccessToken st t0 t1 (Returns d)) = 1 \<Longrightarrow> truthy (access_token d) \<Longrightarrow>
      tokenExpiryTime (after (server_getAccessToken st t0 t1 (Returns d))) = Some (t1 + 3600000)
      \<and> (t2 < t1 + 3600000 \<longrightarrow>
           server_getAccessToken (after (server_getAccessToken st t0 t1 (Returns d))) t2 t3 up
             = \<lparr>token = Inr (access_token d),
                after = after (server_getAccessToken st t0 t1 (Returns d)), exchanges = 0\<rparr>)
      \<and> (t1 + 3600000 \<le> t2 \<longrightarrow>
           exchanges (server_getAccessToken
             (after (server_getAccessToken st t0 t1 (Returns d))) t2 t3 up) = 1)"
    by (auto simp: server_getAccessToken_def split: if_splits upstream.splits)
  have b: "exchanges (part000_getAccessToken cfg st t0 t1 (Returns d)) = 1 \<Longrightarrow> truthy (access_token d) \<Longrightarrow>
      tokenExpiryTime (after (part000_getAccessToken cfg st t0 t1 (Returns d))) = Some (t1 + 3500000)
      \<and> (t2 < t1 + 3500000 \<longrightarrow>
           part000_getAccessToken cfg (after (part000_getAccessToken cfg st t0 t1 (Returns d))) t2 t3 up
             = \<lparr>token = Inr (access_token d),
                after = after (part000_getAccessToken cfg st t0 t1 (Returns d)), exchanges = 0\<rparr>)
      \<and> (t1 + 3500000 \<le> t2 \<longrightarrow>
           exchanges (part000_getAccessToken cfg
             (after (part000_getAccessToken cfg st t0 t1 (Returns d))) t2 t3 up) = 1)"
    by (auto simp: part000_getAccessToken_def split: if_splits upstream.splits)
  have c: "exchanges (part001_getAccessToken cfg st t0 t1 (Returns d)) = 1 \<Longrightarrow> truthy (access_token d) \<Longrightarrow>
      tokenExpiryTime (after (part001_getAccessToken cfg st t0 t1 (Returns d))) = Some (t1 + 3595000)
      \<and> (0 \<le> t2 \<and> t2 < t1 + 3595000 \<longrightarrow>
           part001_getAccessToken cfg (after (part001_getAccessToken cfg st t0 t1 (Returns d))) t2 t3 up
             = \<lparr>token = Inr (access_token d),
                after = after (part001_getAccessToken cfg st t0 t1 (Returns d)), exchanges = 0\<rparr>)
      \<and> (t1 + 3595000 \<le> t2 \<longrightarrow>
           exchanges (part001_getAccessToken cfg
             (after (part001_getAccessToken cfg st t0 t1 (Returns d))) t2 t3 up) = 1)"
    by (auto simp: part001_getAccessToken_def split: if_splits upstream.splits)
  from a b c show ?thesis by blast
qed

theorem token_cache_witness:
  "exchanges (server_getAccessToken initial 1000 1200 (Returns sample_grant)) = 1
   \<and> truthy (access_token sample_grant)
   \<and> token (server_getAccessToken
        (after (server_getAccessToken initial 1000 1200 (Returns sample_grant))) 5000 5200
        (Throws \<lparr>message = ''timeout of 10000ms exceeded'', shown = ''AxiosError'', response = None\<rparr>))
       = Inr (JStr ''tok-1'')
   \<and> exchanges (server_getAccessToken
        (after (server_getAccessToken initial 1000 1200 (Returns sample_grant))) 5000 5200
        (Throws \<lparr>message = ''timeout of 10000ms exceeded'', shown = ''AxiosError'', response = None\<rparr>))
       = 0
   \<and> exchanges (server_getAccessToken
        (after (server_getAccessToken initial 1000 1200 (Returns sample_grant))) 3601200 3601400
        (Returns sample_grant)) = 1
   \<and> exchanges (part001_getAccessToken sample_env initial 1000 1200 (Returns sample_grant)) = 1
   \<and> tokenExpiryTime (after (part001_getAccessToken sample_env initial 1000 1200
        (Returns sample_grant))) = Some 3596200
   \<and> exchanges (part001_getAccessToken sample_env
        (after (part001_getAccessToken sample_env initial 1000 1200 (Returns sample_grant)))
        5000 5200 (Returns sample_grant)) = 0
   \<and> exchanges (part000_getAccessToken sample_env initial 1000 1200 (Returns sample_grant)) = 1
   \<and> tokenExpiryTime (after (part000_getAccessToken sample_env initial 1000 1200
        (Returns sample_grant))) = Some 3501200"
proof -
  let ?e = "\<lparr>message = ''timeout of 10000ms exceeded'', shown = ''AxiosError'', response = None\<rparr>"
  have x: "exchanges (server_getAccessToken initial 1000 1200 (Returns sample_grant)) = 1"
    and y: "exchanges (part001_getAccessToken sample_env initial 1000 1200 (Returns sample_grant)) = 1"
    and z: "exchanges (part000_getAccessToken sample_env initial 1000 1200 (Returns sample_grant)) = 1"
    by (simp_all add: server_getAccessToken_def part001_getAccessToken_def
        part000_getAccessToken_def samples)
  have t: "truthy (access_token sample_grant)" and v: "access_token sample_grant = JStr ''tok-1''"
    by (simp_all add: samples)
  from x y z t v
    token_cache [of initial 1000 1200 sample_grant 5000 5200 "Throws ?e" sample_env]
    token_cache [of initial 1000 1200 sample_grant 3601200 3601400 "Returns sample_grant" sample_env]
    token_cache [of initial 1000 1200 sample_grant 5000 5200 "Returns sample_grant" sample_env]
  show ?thesis by simp
qed

text \<open>
  In server.js the stored expiry of a token granted for 3600 seconds is the end of
  those 3600 seconds, not an instant before it.
\<close>

theorem expiry_not_before_validity:
  "tokenExpiryTime (after (server_getAccessToken initial 1000 1200 (Returns sample_grant)))
     = Some 3601200
   \<and> 1200 + 1000 * int (expires_in sample_grant) = 3601200"
  by (simp add: server_getAccessToken_def samples)

end
